theory Spec2Isabelle
  imports Complex_Main
begin

section \<open>JavaScript values used by the generator and the mapper\<close>

text \<open>
  Strings are byte lists holding the UTF-8 encoding of the JavaScript string. Every token
  the code searches for is ASCII, so searching the bytes finds what searching the UTF-16
  code units finds. \<open>toLowerCase\<close> maps the letters A to Z; the case pairs outside ASCII
  are not modelled.
\<close>

definition lower_char :: "char \<Rightarrow> char" where
  "lower_char c =
     (case map_of (zip ''ABCDEFGHIJKLMNOPQRSTUVWXYZ'' ''abcdefghijklmnopqrstuvwxyz'') c of
        Some d \<Rightarrow> d
      | None \<Rightarrow> c)"

definition toLowerCase :: "string \<Rightarrow> string" where
  "toLowerCase s = map lower_char s"

fun startsWith :: "string \<Rightarrow> string \<Rightarrow> bool" where
  "startsWith s [] = True"
| "startsWith [] (c # t) = False"
| "startsWith (a # s) (c # t) = (a = c \<and> startsWith s t)"

text \<open>\<open>s.includes(t)\<close>: \<open>t\<close> occurs in \<open>s\<close> as a contiguous run.\<close>

fun includes_str :: "string \<Rightarrow> string \<Rightarrow> bool" where
  "includes_str [] t = (t = [])"
| "includes_str (a # s) t = (startsWith (a # s) t \<or> includes_str s t)"

text \<open>\<open>xs.join(sep)\<close>\<close>

fun join :: "string \<Rightarrow> string list \<Rightarrow> string" where
  "join sep [] = []"
| "join sep [x] = x"
| "join sep (x # y # ys) = x @ sep @ join sep (y # ys)"

text \<open>Decimal rendering of a non-negative integer, as a template literal renders an index.\<close>

fun natToString :: "nat \<Rightarrow> string" where
  "natToString n =
     (if n < 10 then [''0123456789'' ! n]
      else natToString (n div 10) @ [''0123456789'' ! (n mod 10)])"

declare natToString.simps [simp del]

definition intToString :: "int \<Rightarrow> string" where
  "intToString i = (if i < 0 then ''-'' @ natToString (nat (- i)) else natToString (nat i))"

text \<open>
  A JavaScript number is a finite value, \<open>NaN\<close> or an infinity. Finite doubles are taken as
  reals: \<open>Math.min\<close>, \<open>Math.max\<close> and the comparisons are exact on them; the arithmetic of
  the progress circle is modelled without rounding and without the sign of zero.
\<close>

datatype jsnum = Num real | NaN | PosInf | NegInf

text \<open>Truthiness: \<open>0\<close> and \<open>NaN\<close> are falsy, as are \<open>undefined\<close> and the empty string.\<close>

fun truthy_num :: "jsnum option \<Rightarrow> bool" where
  "truthy_num None = False"
| "truthy_num (Some (Num x)) = (x \<noteq> 0)"
| "truthy_num (Some NaN) = False"
| "truthy_num (Some PosInf) = True"
| "truthy_num (Some NegInf) = True"

fun truthy_str :: "string option \<Rightarrow> bool" where
  "truthy_str None = False"
| "truthy_str (Some s) = (s \<noteq> [])"

fun truthy_bool :: "bool option \<Rightarrow> bool" where
  "truthy_bool None = False"
| "truthy_bool (Some b) = b"

text \<open>\<open>a || d\<close> with a default \<open>d\<close> that is always defined.\<close>

definition or_num :: "jsnum option \<Rightarrow> jsnum \<Rightarrow> jsnum" where
  "or_num a d = (if truthy_num a then the a else d)"

definition or_else :: "string option \<Rightarrow> string \<Rightarrow> string" where
  "or_else a d = (if truthy_str a then the a else d)"

text \<open>\<open>a || b\<close> where \<open>b\<close> may itself be \<open>undefined\<close>: a falsy \<open>a\<close> gives \<open>b\<close> as it is.\<close>

definition or_opt :: "string option \<Rightarrow> string option \<Rightarrow> string option" where
  "or_opt a b = (if truthy_str a then a else b)"

fun jle :: "jsnum \<Rightarrow> jsnum \<Rightarrow> bool" where
  "jle NaN y = False"
| "jle x NaN = False"
| "jle NegInf y = True"
| "jle x PosInf = True"
| "jle PosInf y = False"
| "jle x NegInf = False"
| "jle (Num a) (Num b) = (a \<le> b)"

text \<open>\<open>a > b\<close> on possibly undefined operands: \<open>undefined\<close> converts to \<open>NaN\<close>.\<close>

definition js_gt :: "jsnum option \<Rightarrow> jsnum option \<Rightarrow> bool" where
  "js_gt a b =
     (case (a, b) of
        (Some x, Some y) \<Rightarrow> x \<noteq> NaN \<and> y \<noteq> NaN \<and> \<not> jle x y
      | _ \<Rightarrow> False)"

text \<open>\<open>Math.max\<close> and \<open>Math.min\<close> of two numbers: \<open>NaN\<close> if either is.\<close>

definition Math_max :: "jsnum \<Rightarrow> jsnum \<Rightarrow> jsnum" where
  "Math_max x y = (if x = NaN \<or> y = NaN then NaN else if jle x y then y else x)"

definition Math_min :: "jsnum \<Rightarrow> jsnum \<Rightarrow> jsnum" where
  "Math_min x y = (if x = NaN \<or> y = NaN then NaN else if jle x y then x else y)"

fun jneg :: "jsnum \<Rightarrow> jsnum" where
  "jneg (Num a) = Num (- a)"
| "jneg NaN = NaN"
| "jneg PosInf = NegInf"
| "jneg NegInf = PosInf"

fun jadd :: "jsnum \<Rightarrow> jsnum \<Rightarrow> jsnum" where
  "jadd NaN y = NaN"
| "jadd x NaN = NaN"
| "jadd (Num a) (Num b) = Num (a + b)"
| "jadd PosInf NegInf = NaN"
| "jadd NegInf PosInf = NaN"
| "jadd PosInf y = PosInf"
| "jadd NegInf y = NegInf"
| "jadd x PosInf = PosInf"
| "jadd x NegInf = NegInf"

definition jsub :: "jsnum \<Rightarrow> jsnum \<Rightarrow> jsnum" where
  "jsub x y = jadd x (jneg y)"

text \<open>The sign of a number that is not \<open>NaN\<close>: \<open>-1\<close>, \<open>0\<close> or \<open>1\<close>.\<close>

fun jsgn :: "jsnum \<Rightarrow> real" where
  "jsgn (Num a) = sgn a"
| "jsgn NaN = 0"
| "jsgn PosInf = 1"
| "jsgn NegInf = - 1"

definition jinf :: "real \<Rightarrow> jsnum" where
  "jinf s = (if s = 0 then NaN else if 0 < s then PosInf else NegInf)"

fun jmul :: "jsnum \<Rightarrow> jsnum \<Rightarrow> jsnum" where
  "jmul NaN y = NaN"
| "jmul x NaN = NaN"
| "jmul (Num a) (Num b) = Num (a * b)"
| "jmul x y = jinf (jsgn x * jsgn y)"

fun jdiv :: "jsnum \<Rightarrow> jsnum \<Rightarrow> jsnum" where
  "jdiv NaN y = NaN"
| "jdiv x NaN = NaN"
| "jdiv (Num a) (Num b) = (if b = 0 then jinf (sgn a) else Num (a / b))"
| "jdiv (Num a) y = Num 0"
| "jdiv x (Num b) = (if b = 0 then x else jinf (jsgn x * sgn b))"
| "jdiv x y = NaN"

text \<open>\<open>a || b\<close> on two strings, and \<open>a || d\<close> on an integer with a default.\<close>

definition or_str :: "string \<Rightarrow> string \<Rightarrow> string" where
  "or_str a b = (if a \<noteq> [] then a else b)"

definition or_int :: "int option \<Rightarrow> int \<Rightarrow> int" where
  "or_int a d = (case a of None \<Rightarrow> d | Some i \<Rightarrow> if i = 0 then d else i)"

text \<open>A template literal renders \<open>undefined\<close> as the word itself.\<close>

definition str_of_opt :: "string option \<Rightarrow> string" where
  "str_of_opt a = (case a of None \<Rightarrow> ''undefined'' | Some s \<Rightarrow> s)"

text \<open>\<open>s.trim()\<close> over the ASCII white space; the Unicode spaces are not modelled.\<close>

definition is_space :: "char \<Rightarrow> bool" where
  "is_space c = (c \<in> set [CHR 0x20, CHR 0x09, CHR 0x0A, CHR 0x0B, CHR 0x0C, CHR 0x0D])"

definition trim :: "string \<Rightarrow> string" where
  "trim s = rev (dropWhile is_space (rev (dropWhile is_space s)))"

text \<open>
  A value that the code hands on without looking at its type: \<open>null\<close>, a boolean, a number
  or a string (\<open>undefined\<close> is an absent value; objects, symbols and big integers are not
  modelled).
\<close>

datatype jsval = JNull | JBool bool | JNumber jsnum | JString string

fun truthy_val :: "jsval option \<Rightarrow> bool" where
  "truthy_val None = False"
| "truthy_val (Some JNull) = False"
| "truthy_val (Some (JBool b)) = b"
| "truthy_val (Some (JNumber x)) = truthy_num (Some x)"
| "truthy_val (Some (JString s)) = (s \<noteq> [])"

text \<open>
  \<open>StringToNumber\<close>: the text without the white space around it is empty (zero), a signed
  decimal literal with an optional fraction and exponent, \<open>Infinity\<close> with an optional sign,
  or an unsigned binary, octal or hexadecimal integer; every other text is \<open>NaN\<close>. The value of
  a literal is taken as it is written, without rounding.
\<close>

definition digit_of :: "char \<Rightarrow> nat option" where
  "digit_of c =
     map_of (zip ''0123456789abcdef'' [0, 1, 2, 3, 4, 5, 6, 7, 8, 9, 10, 11, 12, 13, 14, 15])
       (lower_char c)"

definition digits_in :: "nat \<Rightarrow> string \<Rightarrow> bool" where
  "digits_in b s =
     (s \<noteq> [] \<and> list_all (\<lambda>c. case digit_of c of None \<Rightarrow> False | Some d \<Rightarrow> d < b) s)"

definition digits_value :: "nat \<Rightarrow> string \<Rightarrow> nat" where
  "digits_value b s =
     foldl (\<lambda>acc c. acc * b + (case digit_of c of None \<Rightarrow> 0 | Some d \<Rightarrow> d)) 0 s"

text \<open>\<open>SignedInteger\<close>, the digits of an exponent.\<close>

definition SignedInteger :: "string \<Rightarrow> int option" where
  "SignedInteger s =
     (case s of
        [] \<Rightarrow> None
      | c # r \<Rightarrow>
          if c = CHR ''+'' then (if digits_in 10 r then Some (int (digits_value 10 r)) else None)
          else if c = CHR ''-''
            then (if digits_in 10 r then Some (- int (digits_value 10 r)) else None)
          else if digits_in 10 s then Some (int (digits_value 10 s)) else None)"

text \<open>
  \<open>StrUnsignedDecimalLiteral\<close> other than \<open>Infinity\<close>: digits, a point and digits on at least
  one side of it, and an optional exponent.
\<close>

definition StrUnsignedDecimalLiteral :: "string \<Rightarrow> real option" where
  "StrUnsignedDecimalLiteral u =
     (let no_e = (\<lambda>c. c \<noteq> CHR ''e'' \<and> c \<noteq> CHR ''E'');
          no_point = (\<lambda>c. c \<noteq> CHR ''.'');
          m = takeWhile no_e u;
          x = dropWhile no_e u;
          ip = takeWhile no_point m;
          fr = dropWhile no_point m;
          exponent = (if x = [] then Some 0 else SignedInteger (tl x));
          mantissa =
            (if fr = [] then
               (if digits_in 10 ip then Some (real (digits_value 10 ip)) else None)
             else
               (let fp = tl fr in
                if (digits_in 10 ip \<and> (fp = [] \<or> digits_in 10 fp)) \<or>
                   (ip = [] \<and> digits_in 10 fp)
                then Some (real (digits_value 10 ip) +
                           real (digits_value 10 fp) / 10 ^ length fp)
                else None))
      in case (mantissa, exponent) of
           (Some a, Some e) \<Rightarrow> Some (if 0 \<le> e then a * 10 ^ nat e else a / 10 ^ nat (- e))
         | _ \<Rightarrow> None)"

text \<open>\<open>NonDecimalIntegerLiteral\<close>: \<open>0x\<close>, \<open>0o\<close> or \<open>0b\<close> and digits of that base, no sign.\<close>

definition NonDecimalIntegerLiteral :: "string \<Rightarrow> real option" where
  "NonDecimalIntegerLiteral t =
     (case t of
        z # c # r \<Rightarrow>
          if z \<noteq> CHR ''0'' then None
          else if lower_char c = CHR ''x'' \<and> digits_in 16 r then Some (real (digits_value 16 r))
          else if lower_char c = CHR ''o'' \<and> digits_in 8 r then Some (real (digits_value 8 r))
          else if lower_char c = CHR ''b'' \<and> digits_in 2 r then Some (real (digits_value 2 r))
          else None
      | _ \<Rightarrow> None)"

definition StringToNumber :: "string \<Rightarrow> jsnum" where
  "StringToNumber s =
     (let t = trim s in
      if t = [] then Num 0
      else if t = ''Infinity'' \<or> t = ''+Infinity'' then PosInf
      else if t = ''-Infinity'' then NegInf
      else
        (case NonDecimalIntegerLiteral t of
           Some n \<Rightarrow> Num n
         | None \<Rightarrow>
             (case (if hd t = CHR ''+'' then StrUnsignedDecimalLiteral (tl t)
                    else if hd t = CHR ''-''
                      then map_option uminus (StrUnsignedDecimalLiteral (tl t))
                    else StrUnsignedDecimalLiteral t) of
                Some r \<Rightarrow> Num r
              | None \<Rightarrow> NaN)))"

text \<open>\<open>ToNumber\<close>, which \<open>Math.max\<close> applies to each argument.\<close>

fun ToNumber :: "jsval option \<Rightarrow> jsnum" where
  "ToNumber None = NaN"
| "ToNumber (Some JNull) = Num 0"
| "ToNumber (Some (JBool b)) = Num (if b then 1 else 0)"
| "ToNumber (Some (JNumber x)) = x"
| "ToNumber (Some (JString s)) = StringToNumber s"

text \<open>\<open>a || d\<close> on an arbitrary value: a falsy \<open>a\<close> gives \<open>d\<close>.\<close>

definition or_val :: "jsval option \<Rightarrow> jsval \<Rightarrow> jsval option" where
  "or_val a d = (if truthy_val a then a else Some d)"

text \<open>Property access on a receiver that may be \<open>undefined\<close> raises a \<open>TypeError\<close>.\<close>

datatype error = TypeError

definition deref :: "'a option \<Rightarrow> error + 'a" where
  "deref r = (case r of None \<Rightarrow> Inl TypeError | Some v \<Rightarrow> Inr v)"

definition bindE :: "error + 'a \<Rightarrow> ('a \<Rightarrow> error + 'b) \<Rightarrow> error + 'b" where
  "bindE r f = (case r of Inl e \<Rightarrow> Inl e | Inr v \<Rightarrow> f v)"

section \<open>The design node\<close>

text \<open>
  Modelled from the spec: the declaration of \<open>SimplifiedNode\<close> (extractors/types) is not
  part of the sources at hand. The data model gives a node an identifier, a display name, a
  node kind, and optionally literal text, a layout box (width, height), an opacity, a
  corner radius and an ordered sequence of children. The code reads the kind as a string
  (\<open>node.type === 'FRAME'\<close>) and the layout as an object (\<open>node.layout?.width\<close>).
\<close>

datatype layout = Layout (width: "jsnum option") (height: "jsnum option")

datatype node = Node
  (node_id: string)
  (name: string)
  (type: string)
  (node_text: "string option")
  (layout: "layout option")
  (opacity: "jsnum option")
  (borderRadius: "string option")
  (children: "node list option")

section \<open>The component mapper\<close>

text \<open>
  \<open>props: Record<string, any>\<close> is a dictionary. Each key the code writes or reads holds
  values of one sort, so the dictionary is kept as one map per sort: strings, booleans,
  numbers, the page numbers of the pagination (integers, the bounds of its counting loop),
  the tab list and the item list. The key \<open>progress\<close> goes to \<open>Math.max\<close> as it is and is kept
  in the map \<open>vals\<close> of arbitrary values. A key bound to \<open>undefined\<close> reads as an absent key.
\<close>

datatype tab = Tab (tab_id: "string option") (tab_label: string) (tab_isActive: "bool option")

datatype item = Item (item_label: string) (item_href: "string option") (item_value: "string option")

record ncds_props =
  strs :: "string \<Rightarrow> string option"
  bools :: "string \<Rightarrow> bool option"
  nums :: "string \<Rightarrow> jsnum option"
  vals :: "string \<Rightarrow> jsval option"
  ints :: "string \<Rightarrow> int option"
  tabs :: "tab list option"
  items :: "item list option"

definition no_props :: ncds_props where
  "no_props = \<lparr>strs = Map.empty, bools = Map.empty, nums = Map.empty, vals = Map.empty,
     ints = Map.empty,
     tabs = None, items = None\<rparr>"

text \<open>The optional \<open>children\<close> of a mapping is never written or read and is left out.\<close>

record NcdsComponentMapping =
  component :: string
  props :: ncds_props
  htmlTag :: string
  className :: string

record ComponentMappingRule =
  condition :: "node \<Rightarrow> bool"
  mapper :: "node \<Rightarrow> error + NcdsComponentMapping"

subsection \<open>Helper functions\<close>

definition inferButtonTheme :: "node \<Rightarrow> string" where
  "inferButtonTheme node =
     (let name = toLowerCase (name node) in
      if includes_str name ''primary'' then ''primary''
      else if includes_str name ''secondary'' then ''secondary''
      else if includes_str name ''destructive'' \<or> includes_str name ''danger''
              \<or> includes_str name ''delete'' then ''destructive''
      else if includes_str name ''link'' then ''link''
      else if includes_str name ''tertiary'' then ''tertiary''
      else if includes_str name ''gray'' then ''secondary-gray''
      else ''primary'')"

definition inferSize :: "node \<Rightarrow> string" where
  "inferSize node =
     (if layout node = None then ''md''
      else
        (let name = toLowerCase (name node) in
         if includes_str name ''xxs'' \<or> includes_str name ''tiny'' then ''xxs''
         else if includes_str name ''xs'' \<or> includes_str name ''small'' then ''xs''
         else if includes_str name ''sm'' then ''sm''
         else if includes_str name ''lg'' \<or> includes_str name ''large'' then ''lg''
         else if includes_str name ''xl'' \<or> includes_str name ''xlarge'' then ''xl''
         else if includes_str name ''2xl'' \<or> includes_str name ''xxlarge'' then ''2xl''
         else ''md''))"

definition inferBadgeColor :: "node \<Rightarrow> string" where
  "inferBadgeColor node =
     (let name = toLowerCase (name node) in
      if includes_str name ''success'' \<or> includes_str name ''green'' then ''success''
      else if includes_str name ''warning'' \<or> includes_str name ''yellow'' then ''warning''
      else if includes_str name ''error'' \<or> includes_str name ''red'' then ''error''
      else if includes_str name ''info'' \<or> includes_str name ''blue'' then ''info''
      else ''default'')"

definition inferNotificationType :: "node \<Rightarrow> string" where
  "inferNotificationType node =
     (let name = toLowerCase (name node) in
      if includes_str name ''success'' then ''success''
      else if includes_str name ''warning'' then ''warning''
      else if includes_str name ''error'' \<or> includes_str name ''danger'' then ''error''
      else if includes_str name ''info'' then ''info''
      else ''info'')"

definition findChildText :: "node \<Rightarrow> string \<Rightarrow> error + string option" where
  "findChildText node ty =
     (if children node = None then Inr None
      else bindE (deref (children node)) (\<lambda>cs.
        Inr (case find (\<lambda>child. includes_str (toLowerCase (name child)) ty
                                \<and> truthy_str (node_text child)) cs of
               None \<Rightarrow> None
             | Some child \<Rightarrow> node_text child)))"

definition extractTabItems :: "node \<Rightarrow> error + tab list" where
  "extractTabItems node =
     (if children node = None then Inr []
      else bindE (deref (children node)) (\<lambda>cs.
        Inr (map (\<lambda>child. Tab None (or_else (node_text child) (name child))
                            (Some (includes_str (toLowerCase (name child)) ''active'')))
               (filter (\<lambda>child. type child = ''TEXT'' \<or> truthy_str (node_text child)) cs))))"

text \<open>The Korean word for "option" of the default items, in UTF-8.\<close>

definition ko_option :: string where
  "ko_option = [CHR 0xEC, CHR 0x98, CHR 0xB5, CHR 0xEC, CHR 0x85, CHR 0x98]"

definition default_dropdown_items :: "item list" where
  "default_dropdown_items =
     [Item (ko_option @ '' 1'') None (Some ''1''), Item (ko_option @ '' 2'') None (Some ''2'')]"

definition extractDropdownItems :: "node \<Rightarrow> error + item list" where
  "extractDropdownItems node =
     (if children node = None then Inr default_dropdown_items
      else bindE (deref (children node)) (\<lambda>cs.
        Inr (map (\<lambda>(index, child).
                    Item (or_else (node_text child) (ko_option @ '' '' @ natToString (index + 1)))
                      None (Some (natToString (index + 1))))
               (enumerate 0 (filter (\<lambda>child. truthy_str (node_text child)) cs)))))"

definition inferTagColor :: "node \<Rightarrow> string" where
  "inferTagColor node =
     (let name = toLowerCase (name node) in
      if includes_str name ''success'' \<or> includes_str name ''green'' then ''success''
      else if includes_str name ''warning'' \<or> includes_str name ''yellow'' then ''warning''
      else if includes_str name ''error'' \<or> includes_str name ''red'' then ''error''
      else if includes_str name ''info'' \<or> includes_str name ''blue'' then ''info''
      else if includes_str name ''primary'' then ''primary''
      else ''gray'')"

definition inferIconColor :: "node \<Rightarrow> string" where
  "inferIconColor node =
     (let name = toLowerCase (name node) in
      if includes_str name ''primary'' \<or> includes_str name ''red'' then ''primary''
      else if includes_str name ''success'' \<or> includes_str name ''green'' then ''success''
      else if includes_str name ''warning'' \<or> includes_str name ''yellow'' then ''warning''
      else if includes_str name ''error'' \<or> includes_str name ''danger'' then ''error''
      else if includes_str name ''info'' \<or> includes_str name ''blue'' then ''info''
      else ''gray'')"

subsection \<open>The rule table\<close>

text \<open>
  Each rule of \<open>NCDS_COMPONENT_RULES\<close> is a condition and a mapper. They are named after
  the comment that introduces the rule in the table.
\<close>

definition cond_Button :: "node \<Rightarrow> bool" where
  "cond_Button node =
     (let name = toLowerCase (name node) in
      type node = ''INSTANCE'' \<or>
      (type node = ''FRAME'' \<and>
       (includes_str name ''button'' \<or> includes_str name ''btn'' \<or>
        includes_str name ''click'' \<or> includes_str name ''submit'')))"

definition mapper_Button :: "node \<Rightarrow> error + NcdsComponentMapping" where
  "mapper_Button node = Inr
     \<lparr>component = ''Button'',
      props = no_props
        \<lparr>strs := Map.empty(''label'' \<mapsto> or_else (node_text node) (name node),
                  ''hierarchy'' \<mapsto> inferButtonTheme node,
                  ''size'' \<mapsto> inferSize node),
         bools := Map.empty(''disabled'' \<mapsto> includes_str (toLowerCase (name node)) ''disabled'')\<rparr>,
      htmlTag = ''button'',
      className = ''ncua-btn''\<rparr>"

definition cond_Input :: "node \<Rightarrow> bool" where
  "cond_Input node =
     (let name = toLowerCase (name node) in
      type node = ''FRAME'' \<and>
      (includes_str name ''input'' \<or> includes_str name ''field'' \<or>
       (includes_str name ''text'' \<and> \<not> includes_str name ''label'')))"

definition mapper_Input :: "node \<Rightarrow> error + NcdsComponentMapping" where
  "mapper_Input node = Inr
     \<lparr>component = ''InputBase'',
      props = no_props
        \<lparr>strs := Map.empty(''placeholder'' \<mapsto> or_else (node_text node) ''Enter text...'',
                  ''size'' \<mapsto> inferSize node),
         bools := Map.empty(''disabled'' \<mapsto> includes_str (toLowerCase (name node)) ''disabled'',
                   ''required'' \<mapsto> includes_str (toLowerCase (name node)) ''required'')\<rparr>,
      htmlTag = ''input'',
      className = ''ncua-input''\<rparr>"

definition cond_Checkbox :: "node \<Rightarrow> bool" where
  "cond_Checkbox node =
     (let name = toLowerCase (name node) in
      type node = ''FRAME'' \<and>
      (includes_str name ''checkbox'' \<or> includes_str name ''check''))"

definition mapper_Checkbox :: "node \<Rightarrow> error + NcdsComponentMapping" where
  "mapper_Checkbox node = Inr
     \<lparr>component = ''Checkbox'',
      props = no_props
        \<lparr>strs := Map.empty(''label'' \<mapsto> or_else (node_text node) (name node)),
         bools := Map.empty(''checked'' \<mapsto> includes_str (toLowerCase (name node)) ''checked'',
                   ''disabled'' \<mapsto> includes_str (toLowerCase (name node)) ''disabled'')\<rparr>,
      htmlTag = ''label'',
      className = ''ncua-checkbox''\<rparr>"

definition cond_Radio :: "node \<Rightarrow> bool" where
  "cond_Radio node =
     (let name = toLowerCase (name node) in
      type node = ''FRAME'' \<and> includes_str name ''radio'')"

definition mapper_Radio :: "node \<Rightarrow> error + NcdsComponentMapping" where
  "mapper_Radio node = Inr
     \<lparr>component = ''Radio'',
      props = no_props
        \<lparr>strs := Map.empty(''label'' \<mapsto> or_else (node_text node) (name node)),
         bools := Map.empty(''checked'' \<mapsto> includes_str (toLowerCase (name node)) ''selected'',
                   ''disabled'' \<mapsto> includes_str (toLowerCase (name node)) ''disabled'')\<rparr>,
      htmlTag = ''label'',
      className = ''ncua-radio''\<rparr>"

definition cond_Select :: "node \<Rightarrow> bool" where
  "cond_Select node =
     (let name = toLowerCase (name node) in
      type node = ''FRAME'' \<and>
      (includes_str name ''select'' \<or> includes_str name ''dropdown'' \<or>
       includes_str name ''combo''))"

definition mapper_Select :: "node \<Rightarrow> error + NcdsComponentMapping" where
  "mapper_Select node = Inr
     \<lparr>component = ''Select'',
      props = no_props
        \<lparr>strs := Map.empty(''placeholder'' \<mapsto> or_else (node_text node) ''Select an option'',
                  ''size'' \<mapsto> inferSize node),
         bools := Map.empty(''disabled'' \<mapsto> includes_str (toLowerCase (name node)) ''disabled'')\<rparr>,
      htmlTag = ''select'',
      className = ''ncua-select''\<rparr>"

definition cond_Badge :: "node \<Rightarrow> bool" where
  "cond_Badge node =
     (let name = toLowerCase (name node) in
      (type node = ''FRAME'' \<or> type node = ''TEXT'') \<and>
      (includes_str name ''badge'' \<or> includes_str name ''tag'' \<or> includes_str name ''chip''))"

definition mapper_Badge :: "node \<Rightarrow> error + NcdsComponentMapping" where
  "mapper_Badge node = Inr
     \<lparr>component = ''Badge'',
      props = no_props
        \<lparr>strs := Map.empty(''label'' \<mapsto> or_else (node_text node) (name node),
                  ''color'' \<mapsto> inferBadgeColor node,
                  ''size'' \<mapsto> inferSize node)\<rparr>,
      htmlTag = ''span'',
      className = ''ncua-badge''\<rparr>"

definition cond_Modal :: "node \<Rightarrow> bool" where
  "cond_Modal node =
     (let name = toLowerCase (name node) in
      type node = ''FRAME'' \<and>
      (includes_str name ''modal'' \<or> includes_str name ''dialog'' \<or>
       includes_str name ''popup''))"

definition mapper_Modal :: "node \<Rightarrow> error + NcdsComponentMapping" where
  "mapper_Modal node =
     bindE (findChildText node ''title'') (\<lambda>title. Inr
       \<lparr>component = ''Modal'',
        props = no_props
          \<lparr>strs := Map.empty(''title'' \<mapsto> or_else title ''Modal Title''),
           bools := Map.empty(''isOpen'' \<mapsto> True)\<rparr>,
        htmlTag = ''div'',
        className = ''ncua-modal''\<rparr>)"

definition cond_Tab :: "node \<Rightarrow> bool" where
  "cond_Tab node =
     (let name = toLowerCase (name node) in
      type node = ''FRAME'' \<and>
      (includes_str name ''tab'' \<and> \<not> includes_str name ''table''))"

definition mapper_Tab :: "node \<Rightarrow> error + NcdsComponentMapping" where
  "mapper_Tab node =
     bindE (extractTabItems node) (\<lambda>ts. Inr
       \<lparr>component = ''HorizontalTab'',
        props = no_props\<lparr>tabs := Some ts\<rparr>,
        htmlTag = ''div'',
        className = ''ncua-tab''\<rparr>)"

definition cond_Pagination :: "node \<Rightarrow> bool" where
  "cond_Pagination node =
     (let name = toLowerCase (name node) in
      type node = ''FRAME'' \<and>
      (includes_str name ''pagination'' \<or> includes_str name ''pager''))"

definition mapper_Pagination :: "node \<Rightarrow> error + NcdsComponentMapping" where
  "mapper_Pagination node = Inr
     \<lparr>component = ''Pagination'',
      props = no_props
        \<lparr>strs := Map.empty(''size'' \<mapsto> inferSize node),
         ints := Map.empty(''currentPage'' \<mapsto> 1, ''totalPages'' \<mapsto> 10)\<rparr>,
      htmlTag = ''nav'',
      className = ''ncua-pagination''\<rparr>"

definition cond_ProgressBar :: "node \<Rightarrow> bool" where
  "cond_ProgressBar node =
     (let name = toLowerCase (name node) in
      type node = ''FRAME'' \<and>
      (includes_str name ''progress'' \<and> includes_str name ''bar''))"

definition mapper_ProgressBar :: "node \<Rightarrow> error + NcdsComponentMapping" where
  "mapper_ProgressBar node = Inr
     \<lparr>component = ''ProgressBar'',
      props = no_props
        \<lparr>strs := Map.empty(''size'' \<mapsto> inferSize node),
         vals := Map.empty(''progress'' \<mapsto> JNumber (Num 50))\<rparr>,
      htmlTag = ''div'',
      className = ''ncua-progress-bar''\<rparr>"

definition cond_Notification :: "node \<Rightarrow> bool" where
  "cond_Notification node =
     (let name = toLowerCase (name node) in
      type node = ''FRAME'' \<and>
      (includes_str name ''notification'' \<or> includes_str name ''alert'' \<or>
       includes_str name ''toast''))"

definition mapper_Notification :: "node \<Rightarrow> error + NcdsComponentMapping" where
  "mapper_Notification node =
     bindE (findChildText node ''title'') (\<lambda>title.
     bindE (findChildText node ''description'') (\<lambda>description. Inr
       \<lparr>component = ''Notification'',
        props = no_props
          \<lparr>strs := Map.empty(''title'' \<mapsto> or_else title ''Notification'',
                    ''description'' := or_opt description (node_text node),
                    ''type'' \<mapsto> inferNotificationType node)\<rparr>,
        htmlTag = ''div'',
        className = ''ncua-notification''\<rparr>))"

definition cond_VerticalTab :: "node \<Rightarrow> bool" where
  "cond_VerticalTab node =
     (let name = toLowerCase (name node) in
      type node = ''FRAME'' \<and>
      (includes_str name ''vertical'' \<and> includes_str name ''tab''))"

definition mapper_VerticalTab :: "node \<Rightarrow> error + NcdsComponentMapping" where
  "mapper_VerticalTab node =
     bindE (extractTabItems node) (\<lambda>ts. Inr
       \<lparr>component = ''VerticalTab'',
        props = no_props
          \<lparr>strs := Map.empty(''type'' \<mapsto> ''button-primary''),
           tabs := Some ts\<rparr>,
        htmlTag = ''div'',
        className = ''ncua-vertical-tab''\<rparr>)"

definition cond_ProgressCircle :: "node \<Rightarrow> bool" where
  "cond_ProgressCircle node =
     (let name = toLowerCase (name node) in
      type node = ''FRAME'' \<and>
      (includes_str name ''progress'' \<and>
       (includes_str name ''circle'' \<or> includes_str name ''circular'')))"

definition mapper_ProgressCircle :: "node \<Rightarrow> error + NcdsComponentMapping" where
  "mapper_ProgressCircle node = Inr
     \<lparr>component = ''ProgressCircle'',
      props = no_props
        \<lparr>strs := Map.empty(''size'' \<mapsto> inferSize node),
         vals := Map.empty(''progress'' \<mapsto> JNumber (Num 50))\<rparr>,
      htmlTag = ''div'',
      className = ''ncua-progress-circle''\<rparr>"

definition cond_Spinner :: "node \<Rightarrow> bool" where
  "cond_Spinner node =
     (let name = toLowerCase (name node) in
      type node = ''FRAME'' \<and>
      (includes_str name ''spinner'' \<or> includes_str name ''loading'' \<or>
       includes_str name ''loader''))"

definition mapper_Spinner :: "node \<Rightarrow> error + NcdsComponentMapping" where
  "mapper_Spinner node = Inr
     \<lparr>component = ''Spinner'',
      props = no_props
        \<lparr>strs := Map.empty(''size'' \<mapsto> inferSize node, ''text'' := node_text node)\<rparr>,
      htmlTag = ''div'',
      className = ''ncua-spinner''\<rparr>"

definition cond_Tag :: "node \<Rightarrow> bool" where
  "cond_Tag node =
     (let name = toLowerCase (name node) in
      (type node = ''FRAME'' \<or> type node = ''TEXT'') \<and>
      (includes_str name ''tag'' \<and> \<not> includes_str name ''stage''))"

definition mapper_Tag :: "node \<Rightarrow> error + NcdsComponentMapping" where
  "mapper_Tag node = Inr
     \<lparr>component = ''Tag'',
      props = no_props
        \<lparr>strs := Map.empty(''label'' \<mapsto> or_else (node_text node) (name node),
                  ''color'' \<mapsto> inferTagColor node,
                  ''size'' \<mapsto> inferSize node)\<rparr>,
      htmlTag = ''span'',
      className = ''ncua-tag''\<rparr>"

definition cond_Toggle :: "node \<Rightarrow> bool" where
  "cond_Toggle node =
     (let name = toLowerCase (name node) in
      type node = ''FRAME'' \<and>
      (includes_str name ''toggle'' \<or> includes_str name ''switch''))"

definition mapper_Toggle :: "node \<Rightarrow> error + NcdsComponentMapping" where
  "mapper_Toggle node = Inr
     \<lparr>component = ''Toggle'',
      props = no_props
        \<lparr>strs := Map.empty(''size'' \<mapsto> inferSize node, ''text'' := node_text node),
         bools := Map.empty(''checked'' \<mapsto> includes_str (toLowerCase (name node)) ''on'',
                   ''disabled'' \<mapsto> includes_str (toLowerCase (name node)) ''disabled'')\<rparr>,
      htmlTag = ''label'',
      className = ''ncua-toggle''\<rparr>"

definition cond_Tooltip :: "node \<Rightarrow> bool" where
  "cond_Tooltip node =
     (let name = toLowerCase (name node) in
      type node = ''FRAME'' \<and> includes_str name ''tooltip'')"

definition mapper_Tooltip :: "node \<Rightarrow> error + NcdsComponentMapping" where
  "mapper_Tooltip node =
     bindE (findChildText node ''title'') (\<lambda>title. Inr
       \<lparr>component = ''Tooltip'',
        props = no_props
          \<lparr>strs := Map.empty(''title'' := or_opt title (node_text node),
                    ''position'' \<mapsto> ''top'')\<rparr>,
        htmlTag = ''span'',
        className = ''ncua-tooltip''\<rparr>)"

definition cond_Slider :: "node \<Rightarrow> bool" where
  "cond_Slider node =
     (let name = toLowerCase (name node) in
      type node = ''FRAME'' \<and>
      (includes_str name ''slider'' \<or> includes_str name ''range''))"

definition mapper_Slider :: "node \<Rightarrow> error + NcdsComponentMapping" where
  "mapper_Slider node = Inr
     \<lparr>component = ''Slider'',
      props = no_props
        \<lparr>strs := Map.empty(''size'' \<mapsto> inferSize node),
         nums := Map.empty(''value'' \<mapsto> Num 50, ''min'' \<mapsto> Num 0, ''max'' \<mapsto> Num 100)\<rparr>,
      htmlTag = ''div'',
      className = ''ncua-slider''\<rparr>"

definition cond_BreadCrumb :: "node \<Rightarrow> bool" where
  "cond_BreadCrumb node =
     (let name = toLowerCase (name node) in
      type node = ''FRAME'' \<and>
      (includes_str name ''breadcrumb'' \<or> includes_str name ''bread''))"

definition mapper_BreadCrumb :: "node \<Rightarrow> error + NcdsComponentMapping" where
  "mapper_BreadCrumb node = Inr
     \<lparr>component = ''BreadCrumb'',
      props = no_props
        \<lparr>items := Some [Item ''Home'' (Some ''/'') None, Item ''Current'' (Some ''#'') None]\<rparr>,
      htmlTag = ''nav'',
      className = ''ncua-breadcrumb''\<rparr>"

definition cond_Divider :: "node \<Rightarrow> bool" where
  "cond_Divider node =
     (let name = toLowerCase (name node) in
      (type node = ''FRAME'' \<or> type node = ''LINE'') \<and>
      (includes_str name ''divider'' \<or> includes_str name ''separator'' \<or>
       includes_str name ''line''))"

text \<open>\<open>node.layout?.width\<close>: \<open>undefined\<close> when the layout is absent.\<close>

definition layout_width :: "node \<Rightarrow> jsnum option" where
  "layout_width node = (case layout node of None \<Rightarrow> None | Some l \<Rightarrow> width l)"

definition layout_height :: "node \<Rightarrow> jsnum option" where
  "layout_height node = (case layout node of None \<Rightarrow> None | Some l \<Rightarrow> height l)"

definition mapper_Divider :: "node \<Rightarrow> error + NcdsComponentMapping" where
  "mapper_Divider node = Inr
     \<lparr>component = ''Divider'',
      props = no_props
        \<lparr>strs := Map.empty(
           ''orientation'' \<mapsto>
             (if js_gt (layout_width node) (layout_height node) then ''horizontal''
              else ''vertical''),
           ''text'' := node_text node)\<rparr>,
      htmlTag = ''hr'',
      className = ''ncua-divider''\<rparr>"

definition cond_Dropdown :: "node \<Rightarrow> bool" where
  "cond_Dropdown node =
     (let name = toLowerCase (name node) in
      type node = ''FRAME'' \<and>
      (includes_str name ''dropdown'' \<and> \<not> includes_str name ''select''))"

definition mapper_Dropdown :: "node \<Rightarrow> error + NcdsComponentMapping" where
  "mapper_Dropdown node =
     bindE (extractDropdownItems node) (\<lambda>its. Inr
       \<lparr>component = ''Dropdown'',
        props = no_props
          \<lparr>strs := Map.empty(''label'' \<mapsto> or_else (node_text node) ''Dropdown''),
           items := Some its\<rparr>,
        htmlTag = ''div'',
        className = ''ncua-dropdown''\<rparr>)"

definition cond_EmptyState :: "node \<Rightarrow> bool" where
  "cond_EmptyState node =
     (let name = toLowerCase (name node) in
      type node = ''FRAME'' \<and>
      (includes_str name ''empty'' \<or> includes_str name ''no-data'' \<or>
       includes_str name ''no-result''))"

definition mapper_EmptyState :: "node \<Rightarrow> error + NcdsComponentMapping" where
  "mapper_EmptyState node =
     bindE (findChildText node ''title'') (\<lambda>title.
     bindE (findChildText node ''description'') (\<lambda>description. Inr
       \<lparr>component = ''EmptyState'',
        props = no_props
          \<lparr>strs := Map.empty(''title'' \<mapsto> or_else title ''No Data'',
                    ''description'' := or_opt description (node_text node))\<rparr>,
        htmlTag = ''div'',
        className = ''ncua-empty-state''\<rparr>))"

definition cond_FeaturedIcon :: "node \<Rightarrow> bool" where
  "cond_FeaturedIcon node =
     (let name = toLowerCase (name node) in
      (type node = ''FRAME'' \<or> type node = ''COMPONENT'') \<and>
      (includes_str name ''icon'' \<or> includes_str name ''featured''))"

definition mapper_FeaturedIcon :: "node \<Rightarrow> error + NcdsComponentMapping" where
  "mapper_FeaturedIcon node = Inr
     \<lparr>component = ''FeaturedIcon'',
      props = no_props
        \<lparr>strs := Map.empty(''name'' \<mapsto> ''star'',
                  ''size'' \<mapsto> inferSize node,
                  ''color'' \<mapsto> inferIconColor node,
                  ''theme'' \<mapsto> ''light'')\<rparr>,
      htmlTag = ''div'',
      className = ''ncua-featured-icon''\<rparr>"

definition NCDS_COMPONENT_RULES :: "ComponentMappingRule list" where
  "NCDS_COMPONENT_RULES =
     [\<lparr>condition = cond_Button, mapper = mapper_Button\<rparr>,
      \<lparr>condition = cond_Input, mapper = mapper_Input\<rparr>,
      \<lparr>condition = cond_Checkbox, mapper = mapper_Checkbox\<rparr>,
      \<lparr>condition = cond_Radio, mapper = mapper_Radio\<rparr>,
      \<lparr>condition = cond_Select, mapper = mapper_Select\<rparr>,
      \<lparr>condition = cond_Badge, mapper = mapper_Badge\<rparr>,
      \<lparr>condition = cond_Modal, mapper = mapper_Modal\<rparr>,
      \<lparr>condition = cond_Tab, mapper = mapper_Tab\<rparr>,
      \<lparr>condition = cond_Pagination, mapper = mapper_Pagination\<rparr>,
      \<lparr>condition = cond_ProgressBar, mapper = mapper_ProgressBar\<rparr>,
      \<lparr>condition = cond_Notification, mapper = mapper_Notification\<rparr>,
      \<lparr>condition = cond_VerticalTab, mapper = mapper_VerticalTab\<rparr>,
      \<lparr>condition = cond_ProgressCircle, mapper = mapper_ProgressCircle\<rparr>,
      \<lparr>condition = cond_Spinner, mapper = mapper_Spinner\<rparr>,
      \<lparr>condition = cond_Tag, mapper = mapper_Tag\<rparr>,
      \<lparr>condition = cond_Toggle, mapper = mapper_Toggle\<rparr>,
      \<lparr>condition = cond_Tooltip, mapper = mapper_Tooltip\<rparr>,
      \<lparr>condition = cond_Slider, mapper = mapper_Slider\<rparr>,
      \<lparr>condition = cond_BreadCrumb, mapper = mapper_BreadCrumb\<rparr>,
      \<lparr>condition = cond_Divider, mapper = mapper_Divider\<rparr>,
      \<lparr>condition = cond_Dropdown, mapper = mapper_Dropdown\<rparr>,
      \<lparr>condition = cond_EmptyState, mapper = mapper_EmptyState\<rparr>,
      \<lparr>condition = cond_FeaturedIcon, mapper = mapper_FeaturedIcon\<rparr>]"

subsection \<open>The main mapping function and the validator\<close>

text \<open>The loop of \<open>mapToNcdsComponent\<close>: the first rule whose condition holds decides.\<close>

fun first_rule :: "ComponentMappingRule list \<Rightarrow> node \<Rightarrow> error + NcdsComponentMapping option" where
  "first_rule [] node = Inr None"
| "first_rule (rule # rules) node =
     (if condition rule node then bindE (mapper rule node) (\<lambda>m. Inr (Some m))
      else first_rule rules node)"

definition mapToNcdsComponent :: "node \<Rightarrow> error + NcdsComponentMapping option" where
  "mapToNcdsComponent node = first_rule NCDS_COMPONENT_RULES node"

definition validComponents :: "string list" where
  "validComponents =
     [''Button'', ''InputBase'', ''Checkbox'', ''Radio'', ''Select'', ''Badge'', ''Modal'',
      ''HorizontalTab'', ''VerticalTab'', ''Pagination'', ''ProgressBar'', ''ProgressCircle'',
      ''Notification'', ''Spinner'', ''Tag'', ''Tooltip'', ''Slider'', ''Toggle'',
      ''BreadCrumb'', ''Divider'', ''Dropdown'', ''EmptyState'', ''FeaturedIcon'']"

definition validateNcdsMapping :: "NcdsComponentMapping \<Rightarrow> bool" where
  "validateNcdsMapping mapping = List.member validComponents (component mapping)"

section \<open>The markup generator\<close>

text \<open>The Korean words of the templates, in UTF-8.\<close>

definition ko_enter_text :: string where
  "ko_enter_text =
     [CHR 0xED, CHR 0x85, CHR 0x8D, CHR 0xEC, CHR 0x8A, CHR 0xA4,
      CHR 0xED, CHR 0x8A, CHR 0xB8, CHR 0xEB, CHR 0xA5, CHR 0xBC] @ '' '' @
     [CHR 0xEC, CHR 0x9E, CHR 0x85, CHR 0xEB, CHR 0xA0, CHR 0xA5,
      CHR 0xED, CHR 0x95, CHR 0x98, CHR 0xEC, CHR 0x84, CHR 0xB8,
      CHR 0xEC, CHR 0x9A, CHR 0x94]"

definition ko_cancel :: string where
  "ko_cancel =
     [CHR 0xEC, CHR 0xB7, CHR 0xA8, CHR 0xEC, CHR 0x86, CHR 0x8C]"

definition ko_confirm :: string where
  "ko_confirm =
     [CHR 0xED, CHR 0x99, CHR 0x95, CHR 0xEC, CHR 0x9D, CHR 0xB8]"

definition ko_tab :: string where
  "ko_tab =
     [CHR 0xED, CHR 0x83, CHR 0xAD]"

definition ko_first :: string where
  "ko_first =
     [CHR 0xEC, CHR 0xB2, CHR 0x98, CHR 0xEC, CHR 0x9D, CHR 0x8C]"

definition ko_previous :: string where
  "ko_previous =
     [CHR 0xEC, CHR 0x9D, CHR 0xB4, CHR 0xEC, CHR 0xA0, CHR 0x84]"

definition ko_next :: string where
  "ko_next =
     [CHR 0xEB, CHR 0x8B, CHR 0xA4, CHR 0xEC, CHR 0x9D, CHR 0x8C]"

definition ko_last :: string where
  "ko_last =
     [CHR 0xEB, CHR 0xA7, CHR 0x88, CHR 0xEC, CHR 0xA7, CHR 0x80,
      CHR 0xEB, CHR 0xA7, CHR 0x89]"

text \<open>
  The options as the constructor stores them. A field is \<open>None\<close> when the caller's object
  has no such key; the constructor then keeps its default \<open>true\<close>.
\<close>

record NcdsHtmlGenerationOptions =
  includeCSS :: "bool option"
  includeComments :: "bool option"
  phpNamingConvention :: "bool option"
  generateNcdsImports :: "bool option"
  wrapInContainer :: "bool option"

record GeneratedNcdsHtml =
  html :: string
  css :: "string option"
  "imports" :: "string list option"
  componentUsage :: "(string \<times> nat) list"

text \<open>
  The mutable fields of the generator: \<open>usedComponents\<close>, a \<open>Set\<close> that keeps the order of
  insertion, and \<open>componentCounter\<close>, an object whose keys keep the order of insertion.
\<close>

record usage =
  usedComponents :: "string list"
  componentCounter :: "(string \<times> nat) list"

record 'gv generator =
  globalVars :: 'gv
  options :: NcdsHtmlGenerationOptions
  usage :: usage

text \<open>
  Modelled from the spec: the declaration of \<open>SimplifiedDesign\<close> (extractors/types) is not
  part of the sources at hand. The generator reads its \<open>nodes\<close>, the tool its
  \<open>globalVars\<close>.
\<close>

record 'gv SimplifiedDesign =
  nodes :: "node list"
  design_globalVars :: 'gv

definition set_add :: "string \<Rightarrow> string list \<Rightarrow> string list" where
  "set_add x xs = (if x \<in> set xs then xs else xs @ [x])"

text \<open>\<open>counter[k] || 0\<close> and \<open>counter[k] = v\<close>.\<close>

definition counter_get :: "(string \<times> nat) list \<Rightarrow> string \<Rightarrow> nat" where
  "counter_get counter k = (case map_of counter k of None \<Rightarrow> 0 | Some v \<Rightarrow> v)"

fun counter_set :: "(string \<times> nat) list \<Rightarrow> string \<Rightarrow> nat \<Rightarrow> (string \<times> nat) list" where
  "counter_set [] k v = [(k, v)]"
| "counter_set ((k', v') # counter) k v =
     (if k' = k then (k, v) # counter else (k', v') # counter_set counter k v)"

subsection \<open>The widget templates\<close>

text \<open>
  Numbers that are not loop indices are rendered by \<open>num_str\<close>, JavaScript's conversion of
  a number to a string, which the functions take as a parameter.
\<close>

definition generateButtonHtml :: "string \<Rightarrow> string \<Rightarrow> ncds_props \<Rightarrow> string \<Rightarrow> node \<Rightarrow> string" where
  "generateButtonHtml = (\<lambda>id className props children node.
     (let type = or_else (strs props ''type'') ''button'';
          size = or_else (strs props ''size'') ''xs'';
          hierarchy = or_else (strs props ''hierarchy'') ''primary'';
          disabled = (if truthy_bool (bools props ''disabled'') then '' disabled'' else []);
          buttonClass = ''ncua-btn ncua-btn--'' @ hierarchy @ '' ncua-btn--'' @ size;
          content = or_else (strs props ''label'') (or_str children (or_else (node_text node) ''Button''));
          content = ''<span class=\"ncua-btn__label\">'' @ content @ ''</span>'';
          content = (if truthy_str (strs props ''leadingIcon'')
                     then ''<i class=\"ncua-icon\">'' @ the (strs props ''leadingIcon'') @ ''</i>'' @ content
                     else content);
          content = (if truthy_str (strs props ''trailingIcon'')
                     then content @ ''<i class=\"ncua-icon\">'' @ the (strs props ''trailingIcon'') @ ''</i>''
                     else content)
      in
       ''<button'' @ (if id \<noteq> [] then '' id=\"'' @ id @ ''\"'' else []) @
       '' class=\"'' @ buttonClass @ ''\" type=\"'' @ type @ ''\"'' @ disabled @ ''>'' @
       content @ ''</button>''))"

definition generateInputHtml :: "(jsnum \<Rightarrow> string) \<Rightarrow> string \<Rightarrow> string \<Rightarrow> ncds_props \<Rightarrow> node \<Rightarrow> string" where
  "generateInputHtml = (\<lambda>num_str id className props node.
     (let type = or_else (strs props ''type'') ''text'';
          size = or_else (strs props ''size'') ''xs'';
          placeholder = or_else (strs props ''placeholder'') (ko_enter_text);
          required = (if truthy_bool (bools props ''required'') then '' required'' else []);
          disabled = (if truthy_bool (bools props ''disabled'') then '' disabled'' else []);
          value = (if truthy_num (nums props ''value'')
                   then '' value=\"'' @ num_str (the (nums props ''value'')) @ ''\"''
                   else [])
      in
       ''\<newline>'' @
       ''<div class=\"ncua-input ncua-input--'' @ size @ ''\">\<newline>'' @
       ''  <div class=\"ncua-input__content\">\<newline>'' @
       ''    <div class=\"ncua-input__field ncua-input__field--'' @ size @ ''\">\<newline>'' @
       ''      <input'' @ (if id \<noteq> [] then '' id=\"'' @ id @ ''\"'' else []) @
       '' placeholder=\"'' @ placeholder @ ''\" type=\"'' @ type @ ''\"'' @ value @ required @
       disabled @ '' />\<newline>'' @
       ''    </div>\<newline>'' @
       ''  </div>\<newline>'' @
       ''</div>''))"

definition generateCheckboxHtml :: "string \<Rightarrow> string \<Rightarrow> ncds_props \<Rightarrow> node \<Rightarrow> string" where
  "generateCheckboxHtml = (\<lambda>id className props node.
     (let checked = (if truthy_bool (bools props ''checked'') then '' checked'' else []);
          disabled = (if truthy_bool (bools props ''disabled'') then '' disabled'' else []);
          size = or_else (strs props ''size'') ''xs'';
          label = or_else (strs props ''label'') (or_else (node_text node) ''Checkbox'')
      in
       ''\<newline>'' @
       ''<label class=\"ncua-checkbox-field ncua-checkbox-field--'' @ size @
       (if label \<noteq> [] then '' has-text'' else []) @ ''\">\<newline>'' @
       ''  <span class=\"ncua-checkbox-input ncua-checkbox-input--'' @ size @
       (if disabled \<noteq> [] then '' is-disabled'' else []) @ ''\">\<newline>'' @
       ''    <input'' @ (if id \<noteq> [] then '' id=\"'' @ id @ ''\"'' else []) @
       '' class=\"ncua-checkbox-field__input\" type=\"checkbox\"'' @ checked @ disabled @
       '' />\<newline>'' @
       ''    <span class=\"ncua-checkbox-input__ico\"></span>\<newline>'' @
       ''  </span>\<newline>'' @
       ''  '' @
       (if label \<noteq> [] then ''<span><span class=\"ncua-checkbox-field__text\">'' @ label @ ''</span></span>'' else []) @
       ''\<newline>'' @
       ''</label>''))"

definition generateRadioHtml :: "string \<Rightarrow> string \<Rightarrow> ncds_props \<Rightarrow> node \<Rightarrow> string" where
  "generateRadioHtml = (\<lambda>id className props node.
     (let checked = (if truthy_bool (bools props ''checked'') then '' checked'' else []);
          disabled = (if truthy_bool (bools props ''disabled'') then '' disabled'' else []);
          size = or_else (strs props ''size'') ''xs'';
          name = or_else (strs props ''name'') ''radio-group'';
          label = or_else (strs props ''label'') (or_else (node_text node) ''Radio'')
      in
       ''\<newline>'' @
       ''<label class=\"ncua-radio-field ncua-radio-field--'' @ size @
       (if label \<noteq> [] then '' has-text'' else []) @ ''\">\<newline>'' @
       ''  <span class=\"ncua-radio-input ncua-radio-input--'' @ size @
       (if disabled \<noteq> [] then '' is-disabled'' else []) @ ''\">\<newline>'' @
       ''    <input'' @ (if id \<noteq> [] then '' id=\"'' @ id @ ''\"'' else []) @
       '' class=\"ncua-radio-field__input\" type=\"radio\" name=\"'' @ name @ ''\"'' @
       checked @ disabled @ '' />\<newline>'' @
       ''    <span class=\"ncua-radio-input__ico\"></span>\<newline>'' @
       ''  </span>\<newline>'' @
       ''  '' @
       (if label \<noteq> [] then ''<span><span class=\"ncua-radio-field__text\">'' @ label @ ''</span></span>'' else []) @
       ''\<newline>'' @
       ''</label>''))"

definition generateSelectHtml :: "string \<Rightarrow> string \<Rightarrow> ncds_props \<Rightarrow> node \<Rightarrow> error + string" where
  "generateSelectHtml = (\<lambda>id className props node.
     (let disabled = (if truthy_bool (bools props ''disabled'') then '' disabled'' else []);
          required = (if truthy_bool (bools props ''required'') then '' required'' else []);
          size = or_else (strs props ''size'') ''md'';
          placeholder = or_else (strs props ''placeholder'') ''Select an option'';
          destructive = (if truthy_bool (bools props ''destructive'') then '' destructive'' else []);
          options = ''<option value=\"\" selected>'' @ placeholder @ ''</option>''
      in
      bindE
        (if children node \<noteq> None
         then bindE (deref (children node)) (\<lambda>cs.
           Inr (options @ concat (map (\<lambda>(index, child).
                  if truthy_str (node_text child)
                  then ''<option value=\"'' @ natToString (index + 1) @ ''\">'' @ the (node_text child) @
           ''</option>''
                  else [])
                (enumerate 0 cs))))
         else Inr options)
        (\<lambda>options. Inr (
       ''\<newline>'' @
       ''<span class=\"ncua-select'' @ destructive @ ''\">\<newline>'' @
       ''  <span class=\"ncua-select__content ncua-select--'' @ size @ ''\">\<newline>'' @
       ''    <select'' @ (if id \<noteq> [] then '' id=\"'' @ id @ ''\"'' else []) @
       '' class=\"ncua-select__tag\"'' @ disabled @ required @ ''>\<newline>'' @
       ''      '' @ options @ ''\<newline>'' @
       ''    </select>\<newline>'' @
       ''  </span>\<newline>'' @
       ''</span>''))))"

definition generateBadgeHtml :: "string \<Rightarrow> string \<Rightarrow> ncds_props \<Rightarrow> node \<Rightarrow> string" where
  "generateBadgeHtml = (\<lambda>id className props node.
     (let label = or_else (strs props ''label'') (or_else (node_text node) ''Badge'');
          type = or_else (strs props ''type'') ''filled'';
          color = or_else (strs props ''color'') ''gray'';
          size = or_else (strs props ''size'') ''md''
      in
       ''\<newline>'' @
       ''<span'' @ (if id \<noteq> [] then '' id=\"'' @ id @ ''\"'' else []) @
       '' class=\"ncua-badge ncua-badge--'' @ type @ '' ncua-badge--'' @ color @
       '' ncua-badge--'' @ size @ ''\">\<newline>'' @
       ''  <span class=\"ncua-badge__label\">'' @ label @ ''</span>\<newline>'' @
       ''</span>''))"

definition generateModalHtml :: "string \<Rightarrow> string \<Rightarrow> ncds_props \<Rightarrow> string \<Rightarrow> node \<Rightarrow> string" where
  "generateModalHtml = (\<lambda>id className props children node.
     (let title = or_else (strs props ''title'') ''Modal Title'';
          subtitle = or_else (strs props ''subtitle'') [];
          content = or_str children (or_else (node_text node) ''Modal content'');
          size = or_else (strs props ''size'') ''md''
      in
       ''\<newline>'' @
       ''<div'' @ (if id \<noteq> [] then '' id=\"'' @ id @ ''\"'' else []) @
       '' class=\"ncua-modal-backdrop\">\<newline>'' @
       ''  <div class=\"ncua-modal ncua-modal--'' @ size @ ''\">\<newline>'' @
       ''    <div class=\"ncua-modal__header ncua-modal__header--left ncua-modal__header--close-button\">\<newline>'' @
       ''      <div class=\"ncua-modal__title\">\<newline>'' @
       ''        <div class=\"ncua-modal__title-text\">'' @ title @ ''</div>\<newline>'' @
       ''        '' @
       (if subtitle \<noteq> [] then ''<div class=\"ncua-modal__title-subtitle\">'' @ subtitle @ ''</div>'' else []) @
       ''\<newline>'' @
       ''      </div>\<newline>'' @
       ''      <button class=\"ncua-modal__close-button\" type=\"button\">&times;</button>\<newline>'' @
       ''    </div>\<newline>'' @
       ''    <div class=\"ncua-modal__header-divider\"></div>\<newline>'' @
       ''    <div class=\"ncua-modal__content\">\<newline>'' @
       ''      '' @ content @ ''\<newline>'' @
       ''    </div>\<newline>'' @
       ''    <div class=\"ncua-modal__actions-divider\"></div>\<newline>'' @
       ''    <div class=\"ncua-modal__actions-wrapper\">\<newline>'' @
       ''      <div class=\"ncua-modal__actions ncua-modal__actions--horizontal ncua-modal__actions--right\">\<newline>'' @
       ''        <button class=\"ncua-btn ncua-btn--secondary-gray ncua-btn--sm\" type=\"button\">\<newline>'' @
       ''          <span class=\"ncua-btn__label\">'' @ ko_cancel @ ''</span>\<newline>'' @
       ''        </button>\<newline>'' @
       ''        <button class=\"ncua-btn ncua-btn--primary ncua-btn--sm\" type=\"button\">\<newline>'' @
       ''          <span class=\"ncua-btn__label\">'' @ ko_confirm @ ''</span>\<newline>'' @
       ''        </button>\<newline>'' @
       ''      </div>\<newline>'' @
       ''    </div>\<newline>'' @
       ''  </div>\<newline>'' @
       ''</div>''))"

definition generateTabHtml :: "string \<Rightarrow> string \<Rightarrow> ncds_props \<Rightarrow> node \<Rightarrow> string" where
  "generateTabHtml = (\<lambda>id className props node.
     (let tabs = (case tabs props of
                    Some ts \<Rightarrow> ts
                  | None \<Rightarrow> [Tab None (ko_tab @ '' 1'') (Some True),
                             Tab None (ko_tab @ '' 2'') (Some False)]);
          type = or_else (strs props ''type'') ''button-primary'';
          size = or_else (strs props ''size'') ''sm'';
          fullWidth = truthy_bool (bools props ''fullWidth'');
          tabButtons = concat (map (\<lambda>(index, tab).
            (let isActive = (if truthy_bool (tab_isActive tab) then '' is-active'' else []) in
             ''\<newline>'' @
             ''        <div class=\"swiper-slide\">\<newline>'' @
             ''          <button class=\"ncua-tab-button ncua-tab-button--'' @ type @
             '' ncua-tab-button--'' @ size @ isActive @ ''\" data-tab=\"'' @
             natToString index @ ''\">\<newline>'' @
             ''            <span class=\"ncua-tab-button__label\">'' @ tab_label tab @
             ''</span>\<newline>'' @
             ''          </button>\<newline>'' @
             ''        </div>''))
            (enumerate 0 tabs))
      in
       ''\<newline>'' @
       ''<div'' @ (if id \<noteq> [] then '' id=\"'' @ id @ ''\"'' else []) @
       '' class=\"ncua-horizontal-tab ncua-horizontal-tab--'' @ type @
       (if fullWidth then '' ncua-horizontal-tab--fullWidth'' else []) @ ''\">\<newline>'' @
       ''  <div class=\"swiper\" style=\"overflow: visible;\">\<newline>'' @
       ''    <div class=\"swiper-wrapper\">\<newline>'' @
       ''      '' @ tabButtons @ ''\<newline>'' @
       ''    </div>\<newline>'' @
       ''  </div>\<newline>'' @
       ''</div>''))"

definition generateNotificationHtml :: "string \<Rightarrow> string \<Rightarrow> ncds_props \<Rightarrow> node \<Rightarrow> string" where
  "generateNotificationHtml = (\<lambda>id className props node.
     (let title = or_else (strs props ''title'') ''Notification'';
          description = or_else (or_opt (strs props ''description'') (node_text node)) [];
          color = or_else (strs props ''color'') ''neutral''
      in
       ''\<newline>'' @
       ''<div'' @ (if id \<noteq> [] then '' id=\"'' @ id @ ''\"'' else []) @
       '' class=\"ncua-floating-notification ncua-floating-notification--'' @ color @
       ''\" role=\"alert\">\<newline>'' @
       ''  <div class=\"ncua-floating-notification__content\">\<newline>'' @
       ''    <div class=\"ncua-floating-notification__container\">\<newline>'' @
       ''      <div class=\"ncua-floating-notification__text-container\">\<newline>'' @
       ''        <div class=\"ncua-floating-notification__title-wrapper\">\<newline>'' @
       ''          <span class=\"ncua-floating-notification__title\">'' @ title @
       ''</span>\<newline>'' @
       ''        </div>\<newline>'' @
       ''        '' @
       (if description \<noteq> [] then ''<span class=\"ncua-floating-notification__supporting-text\">'' @ description @ ''</span>'' else []) @
       ''\<newline>'' @
       ''      </div>\<newline>'' @
       ''    </div>\<newline>'' @
       ''  </div>\<newline>'' @
       ''  <button class=\"ncua-floating-notification__close-button\" type=\"button\">&times;</button>\<newline>'' @
       ''</div>''))"

definition generateProgressBarHtml :: "(jsnum \<Rightarrow> string) \<Rightarrow> string \<Rightarrow> string \<Rightarrow> ncds_props \<Rightarrow> node \<Rightarrow> string" where
  "generateProgressBarHtml = (\<lambda>num_str id className props node.
     (let progress =
            Math_min (Math_max (ToNumber (or_val (vals props ''progress'') (JNumber (Num 0))))
              (Num 0)) (Num 100);
          label = or_else (strs props ''label'') ''none'';
          showValue = truthy_bool (bools props ''showValue'')
      in
       ''\<newline>'' @
       ''<div'' @ (if id \<noteq> [] then '' id=\"'' @ id @ ''\"'' else []) @
       '' class=\"ncua-progress-bar ncua-progress-bar-'' @ label @ ''\">\<newline>'' @
       ''  <div class=\"ncua-progress-bar__content\">\<newline>'' @
       ''    <div class=\"ncua-progress-bar__bar\">\<newline>'' @
       ''      <div class=\"ncua-progress-bar__fill\" style=\"width: '' @ num_str progress @
       ''%\" aria-valuenow=\"'' @ num_str progress @
       ''\" aria-valuemin=\"0\" aria-valuemax=\"100\"></div>\<newline>'' @
       ''    </div>\<newline>'' @
       ''    '' @
       (if showValue \<and> label = ''right'' then ''<span class=\"ncua-progress-bar__label ncua-progress-bar__label-right\">'' @
           num_str progress @ ''%</span>'' else []) @
       ''\<newline>'' @
       ''  </div>\<newline>'' @
       ''  '' @
       (if showValue \<and> label = ''bottom'' then ''<span class=\"ncua-progress-bar__label ncua-progress-bar__label-bottom\">'' @
           num_str progress @ ''%</span>'' else []) @
       ''\<newline>'' @
       ''</div>''))"

text \<open>The counting loop of the pagination: one list item per page from \<open>i\<close> to \<open>end\<close>.\<close>

function pagination_pages :: "int \<Rightarrow> int \<Rightarrow> int \<Rightarrow> string list" where
  "pagination_pages i end currentPage =
     (if i \<le> end
      then (let isActive = (if i = currentPage then '' is-current'' else []) in
            ''\<newline>'' @
            ''        <li class=\"ncua-pagination__item\">\<newline>'' @
            ''          <button class=\"ncua-pagination__page-num'' @ isActive @ ''\">'' @
            intToString i @ ''</button>\<newline>'' @
            ''        </li>'')
           # pagination_pages (i + 1) end currentPage
      else [])"
  by pat_completeness auto
termination
  by (relation "measure (\<lambda>(i, end, currentPage). nat (end + 1 - i))") auto

declare pagination_pages.simps [simp del]

definition generatePaginationHtml :: "string \<Rightarrow> string \<Rightarrow> ncds_props \<Rightarrow> node \<Rightarrow> string" where
  "generatePaginationHtml = (\<lambda>id className props node.
     (let currentPage = or_int (ints props ''currentPage'') 1;
          totalPages = or_int (ints props ''totalPages'') 10;
          breakPoint = or_else (strs props ''breakPoint'') ''pc'';
          showJumpButtons = (totalPages > 5);
          start = max 1 (currentPage - 2);
          end = min totalPages (start + 4);
          pages = pagination_pages start end currentPage
      in
       ''\<newline>'' @
       ''<nav'' @ (if id \<noteq> [] then '' id=\"'' @ id @ ''\"'' else []) @
       '' class=\"ncua-pagination ncua-pagination--'' @ breakPoint @ ''\">\<newline>'' @
       ''  '' @
       (if showJumpButtons then ''\<newline>'' @
           ''    <button class=\"ncua-pagination__nav-btn ncua-pagination__nav-btn--first\" '' @
           (if currentPage = 1 then ''disabled'' else []) @ ''>\<newline>'' @
           ''      <span class=\"ncua-pagination__nav-btn-text\">'' @ ko_first @ ''</span>\<newline>'' @
           ''    </button>\<newline>'' @
           ''    <button class=\"ncua-pagination__nav-btn ncua-pagination__nav-btn--prev\" '' @
           (if currentPage = 1 then ''disabled'' else []) @ ''>\<newline>'' @
           ''      <span class=\"ncua-pagination__nav-btn-text\">'' @ ko_previous @
           ''</span>\<newline>'' @
           ''    </button>'' else []) @
       ''\<newline>'' @
       ''  <ul class=\"ncua-pagination__list\">\<newline>'' @
       ''    '' @ concat pages @ ''\<newline>'' @
       ''  </ul>\<newline>'' @
       ''  <p class=\"ncua-pagination__page-info\">\<newline>'' @
       ''    <em class=\"ncua-pagination__current-num\">'' @ intToString currentPage @
       ''</em> / '' @ intToString totalPages @ ''\<newline>'' @
       ''  </p>\<newline>'' @
       ''  '' @
       (if showJumpButtons then ''\<newline>'' @
           ''    <button class=\"ncua-pagination__nav-btn ncua-pagination__nav-btn--next\" '' @
           (if currentPage = totalPages then ''disabled'' else []) @ ''>\<newline>'' @
           ''      <span class=\"ncua-pagination__nav-btn-text\">'' @ ko_next @ ''</span>\<newline>'' @
           ''    </button>\<newline>'' @
           ''    <button class=\"ncua-pagination__nav-btn ncua-pagination__nav-btn--last\" '' @
           (if currentPage = totalPages then ''disabled'' else []) @ ''>\<newline>'' @
           ''      <span class=\"ncua-pagination__nav-btn-text\">'' @ ko_last @ ''</span>\<newline>'' @
           ''    </button>'' else []) @
       ''\<newline>'' @
       ''</nav>''))"

definition generateVerticalTabHtml :: "string \<Rightarrow> string \<Rightarrow> ncds_props \<Rightarrow> node \<Rightarrow> string" where
  "generateVerticalTabHtml = (\<lambda>id className props node.
     (let tabs = (case tabs props of
                    Some ts \<Rightarrow> ts
                  | None \<Rightarrow> [Tab (Some ''tab1'') (ko_tab @ '' 1'') (Some True),
                             Tab (Some ''tab2'') (ko_tab @ '' 2'') (Some False)]);
          type = or_else (strs props ''type'') ''button-primary'';
          breakPoint = or_else (strs props ''breakPoint'') ''pc'';
          tabButtons = concat (map (\<lambda>tab.
            (let isActive = (if truthy_bool (tab_isActive tab) then '' is-active'' else []) in
             ''\<newline>'' @
             ''        <button class=\"ncua-tab-button ncua-tab-button--'' @ type @
             '' ncua-tab-button--sm'' @ isActive @ ''\" data-tab=\"'' @
             str_of_opt (tab_id tab) @ ''\">\<newline>'' @
             ''          <span class=\"ncua-tab-button__label\">'' @ tab_label tab @
             ''</span>\<newline>'' @
             ''        </button>''))
            tabs)
      in
       ''\<newline>'' @
       ''<div'' @ (if id \<noteq> [] then '' id=\"'' @ id @ ''\"'' else []) @
       '' class=\"ncua-vertical-tab ncua-vertical-tab--'' @ type @ ''\">\<newline>'' @
       ''  <div class=\"ncua-vertical-tab__list\">\<newline>'' @
       ''    '' @ tabButtons @ ''\<newline>'' @
       ''  </div>\<newline>'' @
       ''</div>''))"

text \<open>\<open>Math.PI\<close>, the double nearest to the number pi.\<close>

definition Math_PI :: real where
  "Math_PI = 884279719003555 / 281474976710656"

definition generateProgressCircleHtml :: "(jsnum \<Rightarrow> string) \<Rightarrow> string \<Rightarrow> string \<Rightarrow> ncds_props \<Rightarrow> node \<Rightarrow> string" where
  "generateProgressCircleHtml = (\<lambda>num_str id className props node.
     (let progress =
            Math_min (Math_max (ToNumber (or_val (vals props ''progress'') (JNumber (Num 0))))
              (Num 0)) (Num 100);
          size = or_else (strs props ''size'') ''md'';
          strokeWidth = or_num (nums props ''strokeWidth'') (Num 4);
          radius = jsub (Num 50) strokeWidth;
          circumference = jmul (jmul (Num 2) (Num Math_PI)) radius;
          strokeDashoffset = jsub circumference (jmul (jdiv progress (Num 100)) circumference)
      in
       ''\<newline>'' @
       ''<div'' @ (if id \<noteq> [] then '' id=\"'' @ id @ ''\"'' else []) @
       '' class=\"ncua-progress-circle ncua-progress-circle--'' @ size @ ''\">\<newline>'' @
       ''  <svg class=\"ncua-progress-circle__svg\" viewBox=\"0 0 100 100\">\<newline>'' @
       ''    <circle class=\"ncua-progress-circle__bg\" cx=\"50\" cy=\"50\" r=\"'' @
       num_str radius @ ''\" stroke-width=\"'' @ num_str strokeWidth @
       ''\"></circle>\<newline>'' @
       ''    <circle class=\"ncua-progress-circle__progress\" cx=\"50\" cy=\"50\" r=\"'' @
       num_str radius @ ''\" stroke-width=\"'' @ num_str strokeWidth @ ''\" \<newline>'' @
       ''            style=\"stroke-dasharray: '' @ num_str circumference @
       ''; stroke-dashoffset: '' @ num_str strokeDashoffset @ '';\"></circle>\<newline>'' @
       ''  </svg>\<newline>'' @
       ''  <div class=\"ncua-progress-circle__text\">'' @ num_str progress @
       ''%</div>\<newline>'' @
       ''</div>''))"

definition generateSpinnerHtml :: "string \<Rightarrow> string \<Rightarrow> ncds_props \<Rightarrow> node \<Rightarrow> string" where
  "generateSpinnerHtml = (\<lambda>id className props node.
     (let size = or_else (strs props ''size'') ''md'';
          text = or_else (or_opt (strs props ''text'') (node_text node)) [];
          backdrop = truthy_bool (bools props ''backdrop'');
          spinnerContent =
            ''\<newline>'' @
            ''<div'' @ (if id \<noteq> [] then '' id=\"'' @ id @ ''\"'' else []) @
            '' class=\"ncua-spinner ncua-spinner--'' @ size @ ''\">\<newline>'' @
            ''  <div class=\"ncua-spinner__icon\"></div>\<newline>'' @
            ''  '' @
            (if text \<noteq> [] then ''<p class=\"ncua-spinner__text\">'' @ text @ ''</p>'' else []) @
            ''\<newline>'' @
            ''</div>''
      in
      if backdrop
      then
        ''\<newline>'' @
        ''<div class=\"ncua-spinner-backdrop\">\<newline>'' @
        ''  '' @ spinnerContent @ ''\<newline>'' @
        ''</div>''
      else spinnerContent))"

definition generateTagHtml :: "string \<Rightarrow> string \<Rightarrow> ncds_props \<Rightarrow> node \<Rightarrow> string" where
  "generateTagHtml = (\<lambda>id className props node.
     (let label = or_else (strs props ''label'') (or_else (node_text node) ''Tag'');
          color = or_else (strs props ''color'') ''gray'';
          size = or_else (strs props ''size'') ''md'';
          removable = truthy_bool (bools props ''removable'')
      in
       ''\<newline>'' @
       ''<span'' @ (if id \<noteq> [] then '' id=\"'' @ id @ ''\"'' else []) @
       '' class=\"ncua-tag ncua-tag--'' @ color @ '' ncua-tag--'' @ size @ ''\">\<newline>'' @
       ''  <span class=\"ncua-tag__label\">'' @ label @ ''</span>\<newline>'' @
       ''  '' @
       (if removable then ''<button class=\"ncua-tag__remove\" type=\"button\">&times;</button>'' else []) @
       ''\<newline>'' @
       ''</span>''))"

definition generateTooltipHtml :: "string \<Rightarrow> string \<Rightarrow> ncds_props \<Rightarrow> string \<Rightarrow> node \<Rightarrow> string" where
  "generateTooltipHtml = (\<lambda>id className props children node.
     (let title = or_else (strs props ''title'') ''Tooltip'';
          content = or_else (strs props ''content'') (or_str children (or_else (node_text node) []));
          position = or_else (strs props ''position'') ''top'';
          tooltipType = or_else (strs props ''tooltipType'') ''dark''
      in
       ''\<newline>'' @
       ''<span'' @ (if id \<noteq> [] then '' id=\"'' @ id @ ''\"'' else []) @
       '' class=\"ncua-tooltip ncua-tooltip--'' @ position @ ''\">\<newline>'' @
       ''  <span class=\"ncua-tooltip__trigger\">?</span>\<newline>'' @
       ''  <span class=\"ncua-tooltip__bg ncua-tooltip__bg--'' @ tooltipType @
       '' ncua-tooltip__bg--'' @ position @ ''\">\<newline>'' @
       ''    '' @
       (if title \<noteq> [] then ''<span class=\"ncua-tooltip__title\">'' @ title @ ''</span>'' else []) @
       ''\<newline>'' @
       ''    '' @
       (if content \<noteq> [] then ''<span class=\"ncua-tooltip__content\">'' @ content @ ''</span>'' else []) @
       ''\<newline>'' @
       ''  </span>\<newline>'' @
       ''</span>''))"

definition generateSliderHtml :: "(jsnum \<Rightarrow> string) \<Rightarrow> string \<Rightarrow> string \<Rightarrow> ncds_props \<Rightarrow> node \<Rightarrow> string" where
  "generateSliderHtml = (\<lambda>num_str id className props node.
     (let value = or_num (nums props ''value'') (Num 50);
          min = or_num (nums props ''min'') (Num 0);
          max = or_num (nums props ''max'') (Num 100);
          size = or_else (strs props ''size'') ''md''
      in
       ''\<newline>'' @
       ''<div'' @ (if id \<noteq> [] then '' id=\"'' @ id @ ''\"'' else []) @
       '' class=\"ncua-slider ncua-slider--'' @ size @ ''\">\<newline>'' @
       ''  <input class=\"ncua-slider__input\" type=\"range\" min=\"'' @ num_str min @
       ''\" max=\"'' @ num_str max @ ''\" value=\"'' @ num_str value @ ''\" />\<newline>'' @
       ''</div>''))"

definition generateToggleHtml :: "string \<Rightarrow> string \<Rightarrow> ncds_props \<Rightarrow> node \<Rightarrow> string" where
  "generateToggleHtml = (\<lambda>id className props node.
     (let checked = truthy_bool (bools props ''checked'');
          disabled = truthy_bool (bools props ''disabled'');
          size = or_else (strs props ''size'') ''md'';
          text = or_else (or_opt (strs props ''text'') (node_text node)) []
      in
       ''\<newline>'' @
       ''<label class=\"ncua-toggle ncua-toggle--'' @ size @
       (if disabled then '' is-disabled'' else []) @ ''\">\<newline>'' @
       ''  <input'' @ (if id \<noteq> [] then '' id=\"'' @ id @ ''\"'' else []) @
       '' class=\"ncua-toggle__input\" type=\"checkbox\"'' @
       (if checked then '' checked'' else []) @ (if disabled then '' disabled'' else []) @
       '' />\<newline>'' @
       ''  <span class=\"ncua-toggle__switch\"></span>\<newline>'' @
       ''  '' @
       (if text \<noteq> [] then ''<span class=\"ncua-toggle__text\">'' @ text @ ''</span>'' else []) @
       ''\<newline>'' @
       ''</label>''))"

definition generateBreadcrumbHtml :: "string \<Rightarrow> string \<Rightarrow> ncds_props \<Rightarrow> node \<Rightarrow> string" where
  "generateBreadcrumbHtml = (\<lambda>id className props node.
     (let items = (case items props of
                     Some its \<Rightarrow> its
                   | None \<Rightarrow> [Item ''Home'' (Some ''/'') None, Item ''Page'' (Some ''/page'') None]);
          breadcrumbItems = concat (map (\<lambda>(index, item).
            (let isLast = (int index = int (length items) - 1) in
             ''\<newline>'' @
             ''        <li class=\"ncua-breadcrumb__item\">\<newline>'' @
             ''          '' @
             (if isLast
              then ''<span class=\"ncua-breadcrumb__current\">'' @ item_label item @ ''</span>''
              else ''<a class=\"ncua-breadcrumb__link\" href=\"'' @ or_else (item_href item) ''#'' @ ''\">'' @
           item_label item @ ''</a>'') @
             ''\<newline>'' @
             ''        </li>''))
            (enumerate 0 items))
      in
       ''\<newline>'' @
       ''<nav'' @ (if id \<noteq> [] then '' id=\"'' @ id @ ''\"'' else []) @
       '' class=\"ncua-breadcrumb\">\<newline>'' @
       ''  <ol class=\"ncua-breadcrumb__list\">\<newline>'' @
       ''    '' @ breadcrumbItems @ ''\<newline>'' @
       ''  </ol>\<newline>'' @
       ''</nav>''))"

definition generateDividerHtml :: "string \<Rightarrow> string \<Rightarrow> ncds_props \<Rightarrow> node \<Rightarrow> string" where
  "generateDividerHtml = (\<lambda>id className props node.
     (let orientation = or_else (strs props ''orientation'') ''horizontal'';
          text = or_else (or_opt (strs props ''text'') (node_text node)) []
      in
      if text \<noteq> []
      then
        ''\<newline>'' @
        ''<div'' @ (if id \<noteq> [] then '' id=\"'' @ id @ ''\"'' else []) @
        '' class=\"ncua-divider ncua-divider--'' @ orientation @
        '' ncua-divider--text\">\<newline>'' @
        ''  <span class=\"ncua-divider__text\">'' @ text @ ''</span>\<newline>'' @
        ''</div>''
      else
        ''<hr'' @ (if id \<noteq> [] then '' id=\"'' @ id @ ''\"'' else []) @
        '' class=\"ncua-divider ncua-divider--'' @ orientation @ ''\" />''))"

definition generateDropdownHtml :: "string \<Rightarrow> string \<Rightarrow> ncds_props \<Rightarrow> string \<Rightarrow> node \<Rightarrow> string" where
  "generateDropdownHtml = (\<lambda>id className props children node.
     (let label = or_else (strs props ''label'') ''Dropdown'';
          items = (case items props of
                     Some its \<Rightarrow> its
                   | None \<Rightarrow> default_dropdown_items);
          dropdownItems = concat (map (\<lambda>item.
            ''<li class=\"ncua-dropdown__item\">\<newline>'' @
            ''        <button class=\"ncua-dropdown__button\" type=\"button\" data-value=\"'' @
            str_of_opt (item_value item) @ ''\">'' @ item_label item @
            ''</button>\<newline>'' @
            ''      </li>'')
            items)
      in
       ''\<newline>'' @
       ''<div'' @ (if id \<noteq> [] then '' id=\"'' @ id @ ''\"'' else []) @
       '' class=\"ncua-dropdown\">\<newline>'' @
       ''  <button class=\"ncua-dropdown__trigger\" type=\"button\">'' @ label @
       ''</button>\<newline>'' @
       ''  <ul class=\"ncua-dropdown__menu\">\<newline>'' @
       ''    '' @ dropdownItems @ ''\<newline>'' @
       ''  </ul>\<newline>'' @
       ''</div>''))"

definition generateEmptyStateHtml :: "string \<Rightarrow> string \<Rightarrow> ncds_props \<Rightarrow> string \<Rightarrow> node \<Rightarrow> string" where
  "generateEmptyStateHtml = (\<lambda>id className props children node.
     (let title = or_else (strs props ''title'') ''Empty State'';
          description = or_else (strs props ''description'') (or_str children (or_else (node_text node) []));
          iconName = or_else (strs props ''iconName'') ''inbox''
      in
       ''\<newline>'' @
       ''<div'' @ (if id \<noteq> [] then '' id=\"'' @ id @ ''\"'' else []) @
       '' class=\"ncua-empty-state\">\<newline>'' @
       ''  <div class=\"ncua-empty-state__icon\">\<newline>'' @
       ''    <svg class=\"ncua-featured-icon ncua-featured-icon--xl ncua-featured-icon--gray-modern\" viewBox=\"0 0 24 24\">\<newline>'' @
       ''      <path d=\"M3 3h18v18H3V3z\" stroke=\"currentColor\" fill=\"none\"/>\<newline>'' @
       ''    </svg>\<newline>'' @
       ''  </div>\<newline>'' @
       ''  <div class=\"ncua-empty-state__content\">\<newline>'' @
       ''    <h3 class=\"ncua-empty-state__title\">'' @ title @ ''</h3>\<newline>'' @
       ''    '' @
       (if description \<noteq> [] then ''<p class=\"ncua-empty-state__description\">'' @ description @ ''</p>'' else []) @
       ''\<newline>'' @
       ''  </div>\<newline>'' @
       ''</div>''))"

definition generateFeaturedIconHtml :: "string \<Rightarrow> string \<Rightarrow> ncds_props \<Rightarrow> node \<Rightarrow> string" where
  "generateFeaturedIconHtml = (\<lambda>id className props node.
     (let name = or_else (strs props ''name'') ''star'';
          size = or_else (strs props ''size'') ''md'';
          color = or_else (strs props ''color'') ''primary'';
          theme = or_else (strs props ''theme'') ''light''
      in
       ''\<newline>'' @
       ''<div'' @ (if id \<noteq> [] then '' id=\"'' @ id @ ''\"'' else []) @
       '' class=\"ncua-featured-icon ncua-featured-icon--'' @ size @
       '' ncua-featured-icon--'' @ color @ ''-'' @ theme @ ''\">\<newline>'' @
       ''  <svg viewBox=\"0 0 24 24\">\<newline>'' @
       ''    <path d=\"M12 2l3.09 6.26L22 9.27l-5 4.87 1.18 6.88L12 17.77l-6.18 3.25L7 14.14 2 9.27l6.91-1.01L12 2z\" fill=\"currentColor\"/>\<newline>'' @
       ''  </svg>\<newline>'' @
       ''</div>''))"

definition generateGenericComponentHtml :: "NcdsComponentMapping \<Rightarrow> string \<Rightarrow> string \<Rightarrow> ncds_props \<Rightarrow> string \<Rightarrow> string" where
  "generateGenericComponentHtml = (\<lambda>mapping id className props children.
     (let tag = or_str (htmlTag mapping) ''div'' in
       ''<'' @ tag @ '' id=\"'' @ id @ ''\" class=\"'' @ className @ ''\">'' @ children @
       ''</'' @ tag @ ''>''))"

subsection \<open>Identifiers, class names and inline styles\<close>

definition is_lower_alnum :: "char \<Rightarrow> bool" where
  "is_lower_alnum c = (c \<in> set ''abcdefghijklmnopqrstuvwxyz0123456789'')"

text \<open>\<open>.replace(/_+/g, '_')\<close>: every run of underscores becomes one underscore.\<close>

fun collapse_underscores :: "string \<Rightarrow> string" where
  "collapse_underscores [] = []"
| "collapse_underscores [c] = [c]"
| "collapse_underscores (c # d # s) =
     (if c = CHR ''_'' \<and> d = CHR ''_'' then collapse_underscores (d # s)
      else c # collapse_underscores (d # s))"

text \<open>\<open>.replace(/^_|_$/g, '')\<close>: one underscore less at the start and at the end.\<close>

definition strip_underscores :: "string \<Rightarrow> string" where
  "strip_underscores s =
     (let s1 = (case s of [] \<Rightarrow> [] | c # r \<Rightarrow> if c = CHR ''_'' then r else s) in
      if s1 \<noteq> [] \<and> last s1 = CHR ''_'' then butlast s1 else s1)"

definition toPhpNaming :: "string \<Rightarrow> string" where
  "toPhpNaming = (\<lambda>name.
     strip_underscores (collapse_underscores
       (map (\<lambda>c. if is_lower_alnum c then c else CHR ''_'') (toLowerCase name))))"

definition generateId :: "NcdsHtmlGenerationOptions \<Rightarrow> node \<Rightarrow> string" where
  "generateId opts node =
     (if truthy_bool (phpNamingConvention opts) then toPhpNaming (name node) else node_id node)"

definition generateClassName :: "NcdsComponentMapping \<Rightarrow> string" where
  "generateClassName mapping =
     (let baseClass = className mapping;
          sizeClass = (if truthy_str (strs (props mapping) ''size'')
                       then className mapping @ ''--'' @ the (strs (props mapping) ''size'') else []);
          themeClass = (if truthy_str (strs (props mapping) ''hierarchy'')
                        then className mapping @ ''--'' @ the (strs (props mapping) ''hierarchy'') else [])
      in join '' '' (filter (\<lambda>s. s \<noteq> []) [baseClass, sizeClass, themeClass]))"

definition generateRegularClassName :: "node \<Rightarrow> string" where
  "generateRegularClassName node = ''figma-'' @ toLowerCase (type node)"

definition generateNcdsProps :: "ncds_props \<Rightarrow> ncds_props" where
  "generateNcdsProps = (\<lambda>props. props)"

definition generateInlineStyles :: "(jsnum \<Rightarrow> string) \<Rightarrow> node \<Rightarrow> string" where
  "generateInlineStyles num_str node =
     (let styles = [];
          styles = (if opacity node \<noteq> None \<and> opacity node \<noteq> Some (Num 1)
                    then styles @ [''opacity: '' @ num_str (the (opacity node))] else styles);
          styles = (if truthy_str (borderRadius node)
                    then styles @ [''border-radius: '' @ the (borderRadius node)] else styles)
      in join ''; '' styles)"

definition getHtmlTag :: "node \<Rightarrow> string" where
  "getHtmlTag node =
     (if type node = ''TEXT'' then ''span''
      else if type node = ''FRAME'' \<or> type node = ''GROUP'' then ''div''
      else if type node = ''RECTANGLE'' then ''div''
      else if type node = ''ELLIPSE'' then ''div''
      else if type node = ''IMAGE'' then ''img''
      else ''div'')"

definition generateNcdsCss :: string where
  "generateNcdsCss =
     ''\<newline>'' @
     ''/* NCDS UI Admin Essential Resources */\<newline>'' @
     ''<link rel=\"stylesheet\" href=\"https://fe-sdk.cdn-nhncommerce.com/@ncds/ui-admin/1.0/main.min.css\" />\<newline>'' @
     ''<script type=\"text/javascript\" src=\"https://fe-sdk.cdn-nhncommerce.com/@ncds/ui-admin/1.0/main.min.js\"></script>\<newline>'' @
     ''\<newline>'' @
     ''/* NCDS UI Admin CSS Import */\<newline>'' @
     ''@import '' @ [CHR 0x27] @ ''@ncds/ui-admin/dist/ui-admin/assets/styles/style.css'' @
     [CHR 0x27] @ '';\<newline>'' @
     ''\<newline>'' @
     ''/* Custom styles for generated components */\<newline>'' @
     ''.figma-container {\<newline>'' @
     ''  padding: 20px;\<newline>'' @
     ''  max-width: 1200px;\<newline>'' @
     ''  margin: 0 auto;\<newline>'' @
     ''}\<newline>'' @
     ''\<newline>'' @
     ''/* Additional styles for better component display */\<newline>'' @
     ''.ncua-modal-backdrop {\<newline>'' @
     ''  position: fixed;\<newline>'' @
     ''  top: 0;\<newline>'' @
     ''  left: 0;\<newline>'' @
     ''  right: 0;\<newline>'' @
     ''  bottom: 0;\<newline>'' @
     ''  background-color: rgba(0, 0, 0, 0.5);\<newline>'' @
     ''  display: flex;\<newline>'' @
     ''  align-items: center;\<newline>'' @
     ''  justify-content: center;\<newline>'' @
     ''  z-index: 1000;\<newline>'' @
     ''}\<newline>'' @
     ''\<newline>'' @
     ''.swiper {\<newline>'' @
     ''  overflow: visible !important;\<newline>'' @
     ''}\<newline>'' @
     ''\<newline>'' @
     ''.swiper-wrapper {\<newline>'' @
     ''  display: flex;\<newline>'' @
     ''  gap: 8px;\<newline>'' @
     ''}\<newline>'' @
     ''\<newline>'' @
     ''.swiper-slide {\<newline>'' @
     ''  width: auto;\<newline>'' @
     ''}\<newline>'' @
     ''    ''"

definition wrapInContainer_html :: "string \<Rightarrow> string" where
  "wrapInContainer_html = (\<lambda>html. ''<div class=\"figma-container\">\<newline>'' @ html @ ''\<newline>'' @ ''</div>'')"

subsection \<open>The dispatch over the component kind\<close>

text \<open>The \<open>switch\<close> of \<open>generateNcdsComponentHtml\<close>, after the children are rendered.\<close>

definition generateNcdsComponentHtml_switch ::
  "(jsnum \<Rightarrow> string) \<Rightarrow> NcdsComponentMapping \<Rightarrow> string \<Rightarrow> string \<Rightarrow> ncds_props \<Rightarrow> string
     \<Rightarrow> node \<Rightarrow> error + string" where
  "generateNcdsComponentHtml_switch = (\<lambda>num_str mapping id className props children node.
     (let c = component mapping in
      if c = ''Button'' then Inr (generateButtonHtml id className props children node)
      else if c = ''InputBase'' then Inr (generateInputHtml num_str id className props node)
      else if c = ''Checkbox'' then Inr (generateCheckboxHtml id className props node)
      else if c = ''Radio'' then Inr (generateRadioHtml id className props node)
      else if c = ''Select'' then generateSelectHtml id className props node
      else if c = ''Badge'' then Inr (generateBadgeHtml id className props node)
      else if c = ''Modal'' then Inr (generateModalHtml id className props children node)
      else if c = ''HorizontalTab'' then Inr (generateTabHtml id className props node)
      else if c = ''Notification'' then Inr (generateNotificationHtml id className props node)
      else if c = ''ProgressBar'' then Inr (generateProgressBarHtml num_str id className props node)
      else if c = ''Pagination'' then Inr (generatePaginationHtml id className props node)
      else if c = ''VerticalTab'' then Inr (generateVerticalTabHtml id className props node)
      else if c = ''ProgressCircle''
        then Inr (generateProgressCircleHtml num_str id className props node)
      else if c = ''Spinner'' then Inr (generateSpinnerHtml id className props node)
      else if c = ''Tag'' then Inr (generateTagHtml id className props node)
      else if c = ''Tooltip'' then Inr (generateTooltipHtml id className props children node)
      else if c = ''Slider'' then Inr (generateSliderHtml num_str id className props node)
      else if c = ''Toggle'' then Inr (generateToggleHtml id className props node)
      else if c = ''BreadCrumb'' then Inr (generateBreadcrumbHtml id className props node)
      else if c = ''Divider'' then Inr (generateDividerHtml id className props node)
      else if c = ''Dropdown'' then Inr (generateDropdownHtml id className props children node)
      else if c = ''EmptyState''
        then Inr (generateEmptyStateHtml id className props children node)
      else if c = ''FeaturedIcon'' then Inr (generateFeaturedIconHtml id className props node)
      else Inr (generateGenericComponentHtml mapping id className props children)))"

subsection \<open>The recursive rendering\<close>

text \<open>
  The private methods read \<open>this.options\<close> and update \<open>this.usedComponents\<close> and
  \<open>this.componentCounter\<close>: they take the options and the usage state and return the
  markup with the new usage state. \<open>nodes.map(...)\<close> of \<open>generateNodesHtml\<close> is
  \<open>generateNodesHtml_map\<close>, which renders the nodes from left to right.
\<close>

function generateNodesHtml ::
    "(jsnum \<Rightarrow> string) \<Rightarrow> NcdsHtmlGenerationOptions \<Rightarrow> node list \<Rightarrow> usage \<Rightarrow> error + (string \<times> usage)"
  and generateNodesHtml_map ::
    "(jsnum \<Rightarrow> string) \<Rightarrow> NcdsHtmlGenerationOptions \<Rightarrow> node list \<Rightarrow> usage
       \<Rightarrow> error + (string list \<times> usage)"
  and generateNodeHtml ::
    "(jsnum \<Rightarrow> string) \<Rightarrow> NcdsHtmlGenerationOptions \<Rightarrow> node \<Rightarrow> usage \<Rightarrow> error + (string \<times> usage)"
  and generateNcdsComponentHtml ::
    "(jsnum \<Rightarrow> string) \<Rightarrow> NcdsHtmlGenerationOptions \<Rightarrow> NcdsComponentMapping \<Rightarrow> node \<Rightarrow> usage
       \<Rightarrow> error + (string \<times> usage)"
  and generateRegularHtml ::
    "(jsnum \<Rightarrow> string) \<Rightarrow> NcdsHtmlGenerationOptions \<Rightarrow> node \<Rightarrow> usage \<Rightarrow> error + (string \<times> usage)"
  and generateChildren ::
    "(jsnum \<Rightarrow> string) \<Rightarrow> NcdsHtmlGenerationOptions \<Rightarrow> node \<Rightarrow> usage \<Rightarrow> error + (string \<times> usage)"
where
  "generateNodesHtml num_str opts ns st =
     (case generateNodesHtml_map num_str opts ns st of
        Inl e \<Rightarrow> Inl e
      | Inr (htmls, st') \<Rightarrow>
          Inr (join ''\<newline>'' (filter (\<lambda>html. trim html \<noteq> []) htmls), st'))"
| "generateNodesHtml_map num_str opts [] st = Inr ([], st)"
| "generateNodesHtml_map num_str opts (node # ns) st =
     (case generateNodeHtml num_str opts node st of
        Inl e \<Rightarrow> Inl e
      | Inr (h, st1) \<Rightarrow>
          (case generateNodesHtml_map num_str opts ns st1 of
             Inl e \<Rightarrow> Inl e
           | Inr (hs, st2) \<Rightarrow> Inr (h # hs, st2)))"
| "generateNodeHtml num_str opts node st =
     (case mapToNcdsComponent node of
        Inl e \<Rightarrow> Inl e
      | Inr ncdsMapping \<Rightarrow>
          (case ncdsMapping of
             None \<Rightarrow> generateRegularHtml num_str opts node st
           | Some mapping \<Rightarrow>
               if validateNcdsMapping mapping
               then generateNcdsComponentHtml num_str opts mapping node st
               else generateRegularHtml num_str opts node st))"
| "generateNcdsComponentHtml num_str opts mapping node st =
     (let st1 = st\<lparr>usedComponents := set_add (component mapping) (usedComponents st),
                   componentCounter :=
                     counter_set (componentCounter st) (component mapping)
                       (counter_get (componentCounter st) (component mapping) + 1)\<rparr>;
          id = generateId opts node;
          className = generateClassName mapping;
          props = generateNcdsProps (props mapping)
      in
      case generateChildren num_str opts node st1 of
        Inl e \<Rightarrow> Inl e
      | Inr (rendered, st2) \<Rightarrow>
          (let children = rendered;
               html = (if truthy_bool (includeComments opts)
                       then ''<!-- NCDS '' @ component mapping @ '': '' @ name node @ '' -->\<newline>''
                       else [])
           in
           case generateNcdsComponentHtml_switch num_str mapping id className props children node of
             Inl e \<Rightarrow> Inl e
           | Inr h \<Rightarrow> Inr (html @ h, st2)))"
| "generateRegularHtml num_str opts node st =
     (let tag = getHtmlTag node;
          id = generateId opts node;
          className = generateRegularClassName node;
          styles = generateInlineStyles num_str node
      in
      case generateChildren num_str opts node st of
        Inl e \<Rightarrow> Inl e
      | Inr (rendered, st1) \<Rightarrow>
          (let children = rendered;
               attributes = join '' '' (filter (\<lambda>s. s \<noteq> [])
                 [if id \<noteq> [] then ''id=\"'' @ id @ ''\"'' else [],
                  if className \<noteq> [] then ''class=\"'' @ className @ ''\"'' else [],
                  if styles \<noteq> [] then ''style=\"'' @ styles @ ''\"'' else []]);
               content = [];
               content = (if truthy_str (node_text node) then the (node_text node) else content);
               content = (if children \<noteq> [] then content @ children else content);
               openTag = ''<'' @ tag @ (if attributes \<noteq> [] then '' '' @ attributes else []) @ ''>'';
               closeTag = ''</'' @ tag @ ''>''
           in Inr (openTag @ content @ closeTag, st1)))"
| "generateChildren num_str opts node st =
     (case children node of
        None \<Rightarrow> Inr ([], st)
      | Some cs \<Rightarrow>
          if length cs = 0 then Inr ([], st)
          else generateNodesHtml num_str opts cs st)"
  by pat_completeness auto
termination
  apply (relation "measure (\<lambda>x. case x of
    Inl (Inl (_, _, ns, _)) \<Rightarrow> 4 * size_list size ns + 1
  | Inl (Inr (Inl (_, _, ns, _))) \<Rightarrow> 4 * size_list size ns
  | Inl (Inr (Inr (_, _, node, _))) \<Rightarrow> 4 * size node + 3
  | Inr (Inl (_, _, _, node, _)) \<Rightarrow> 4 * size node + 2
  | Inr (Inr (Inl (_, _, node, _))) \<Rightarrow> 4 * size node + 2
  | Inr (Inr (Inr (_, _, node, _))) \<Rightarrow> 4 * size node + 1)")
         apply simp_all
  subgoal for node cs by (cases node) simp
  done

declare generateNodesHtml.simps [simp del]
declare generateNodeHtml.simps [simp del]
declare generateNcdsComponentHtml.simps [simp del]
declare generateRegularHtml.simps [simp del]
declare generateChildren.simps [simp del]

subsection \<open>The public interface\<close>

definition NcdsHtmlGenerator :: "'gv \<Rightarrow> NcdsHtmlGenerationOptions \<Rightarrow> 'gv generator" where
  "NcdsHtmlGenerator = (\<lambda>globalVars options.
     \<lparr>globalVars = globalVars,
      options =
        \<lparr>includeCSS = (case includeCSS options of None \<Rightarrow> Some True | Some b \<Rightarrow> Some b),
         includeComments =
           (case includeComments options of None \<Rightarrow> Some True | Some b \<Rightarrow> Some b),
         phpNamingConvention =
           (case phpNamingConvention options of None \<Rightarrow> Some True | Some b \<Rightarrow> Some b),
         generateNcdsImports =
           (case generateNcdsImports options of None \<Rightarrow> Some True | Some b \<Rightarrow> Some b),
         wrapInContainer =
           (case wrapInContainer options of None \<Rightarrow> Some True | Some b \<Rightarrow> Some b)\<rparr>,
      usage = \<lparr>usedComponents = [], componentCounter = []\<rparr>\<rparr>)"

definition generateImports :: "usage \<Rightarrow> string list" where
  "generateImports st = usedComponents st"

definition generateFromDesign ::
  "(jsnum \<Rightarrow> string) \<Rightarrow> 'gv generator \<Rightarrow> 'gv SimplifiedDesign
     \<Rightarrow> error + (GeneratedNcdsHtml \<times> 'gv generator)" where
  "generateFromDesign num_str this design =
     (let st = (usage this)\<lparr>usedComponents := [], componentCounter := []\<rparr> in
      case generateNodesHtml num_str (options this) (nodes design) st of
        Inl e \<Rightarrow> Inl e
      | Inr (rendered, st1) \<Rightarrow>
          (let html = rendered;
               wrappedHtml = (if truthy_bool (wrapInContainer (options this))
                              then wrapInContainer_html html else html);
               imports = (if truthy_bool (generateNcdsImports (options this))
                          then Some (generateImports st1) else None);
               css = (if truthy_bool (includeCSS (options this))
                      then Some generateNcdsCss else None)
           in Inr (\<lparr>html = wrappedHtml, css = css, imports = imports,
                     componentUsage = componentCounter st1\<rparr>,
                   this\<lparr>usage := st1\<rparr>)))"

section \<open>Example nodes\<close>

text \<open>The children of a node that carry text: \<open>child.text\<close> is a non-empty string.\<close>

definition text_bearing :: "node list \<Rightarrow> node list" where
  "text_bearing cs = filter (\<lambda>child. truthy_str (node_text child)) cs"

definition n2xl :: node where
  "n2xl = Node ''1:2'' ''Button 2xl'' ''FRAME'' None (Some (Layout None None)) None None None"

definition instance_node :: node where
  "instance_node = Node ''7:1'' ''Card / Header'' ''INSTANCE'' None None None None None"

definition tag_node :: node where
  "tag_node = Node ''3:9'' ''Status Tag'' ''TEXT'' (Some ''New'') None None None None"

definition table_node :: node where
  "table_node = Node ''5:4'' ''Data Table'' ''FRAME'' None None None None None"

definition text_frame :: node where
  "text_frame = Node ''9:2'' ''Body Text'' ''FRAME'' (Some ''Lorem'') None None None None"

definition icon_child :: node where
  "icon_child = Node ''4:2'' ''Chevron'' ''RECTANGLE'' None None None None None"

definition dropdown_no_text :: node where
  "dropdown_no_text = Node ''4:1'' ''Menu'' ''FRAME'' None None None None (Some [icon_child])"

definition dropdown_two :: node where
  "dropdown_two = Node ''4:3'' ''Menu'' ''FRAME'' None None None None
     (Some [Node ''4:4'' ''A'' ''TEXT'' (Some ''Apple'') None None None None,
            icon_child,
            Node ''4:5'' ''B'' ''TEXT'' (Some ''Pear'') None None None None])"

text \<open>A node is sparse when every optional field is absent.\<close>

definition sparse :: "node \<Rightarrow> bool" where
  "sparse node \<longleftrightarrow>
     node_text node = None \<and> layout node = None \<and> opacity node = None \<and>
     borderRadius node = None \<and> children node = None"

text \<open>Props with the progress values 150, -20 and the text "abc".\<close>

definition props_150 :: ncds_props where
  "props_150 = no_props\<lparr>vals := Map.empty(''progress'' \<mapsto> JNumber (Num 150))\<rparr>"

definition props_minus_20 :: ncds_props where
  "props_minus_20 = no_props\<lparr>vals := Map.empty(''progress'' \<mapsto> JNumber (Num (- 20)))\<rparr>"

definition props_abc :: ncds_props where
  "props_abc = no_props\<lparr>vals := Map.empty(''progress'' \<mapsto> JString ''abc'')\<rparr>"

text \<open>
  The progress of the props is a non-empty string that \<open>ToNumber\<close> turns into \<open>NaN\<close>. These
  are the only truthy values of the model that \<open>ToNumber\<close> turns into \<open>NaN\<close>.
\<close>

definition progress_not_a_number :: "ncds_props \<Rightarrow> bool" where
  "progress_not_a_number p =
     (case vals p ''progress'' of
        Some (JString s) \<Rightarrow> s \<noteq> [] \<and> StringToNumber s = NaN
      | _ \<Rightarrow> False)"

text \<open>
  A number formatter for the examples: the text JavaScript gives to \<open>NaN\<close>, to the infinities
  and to the integers below \<open>10^21\<close> in magnitude. It gives no text to any other number.
\<close>

definition integer_num_str :: "jsnum \<Rightarrow> string" where
  "integer_num_str x =
     (case x of
        NaN \<Rightarrow> ''NaN''
      | PosInf \<Rightarrow> ''Infinity''
      | NegInf \<Rightarrow> ''-Infinity''
      | Num r \<Rightarrow>
          if r = real_of_int \<lfloor>r\<rfloor> \<and> \<bar>r\<bar> < 10 ^ 21 then intToString \<lfloor>r\<rfloor> else [])"

text \<open>A generator built without options, and a design of one \<open>INSTANCE\<close> node.\<close>

definition all_default :: NcdsHtmlGenerationOptions where
  "all_default = \<lparr>includeCSS = None, includeComments = None, phpNamingConvention = None,
     generateNcdsImports = None, wrapInContainer = None\<rparr>"

definition default_generator :: "unit generator" where
  "default_generator = NcdsHtmlGenerator () all_default"

definition no_usage :: usage where
  "no_usage = \<lparr>usedComponents = [], componentCounter = []\<rparr>"

definition one_button :: usage where
  "one_button = \<lparr>usedComponents = [''Button''], componentCounter = [(''Button'', 1)]\<rparr>"

definition design_one_instance :: "unit SimplifiedDesign" where
  "design_one_instance = \<lparr>nodes = [instance_node], design_globalVars = ()\<rparr>"

definition button_markup :: string where
  "button_markup =
     ''<!-- NCDS Button: Card / Header -->\<newline>'' @
     ''<button id=\"card_header\" class=\"ncua-btn ncua-btn--primary ncua-btn--md\"'' @
     '' type=\"button\"><span class=\"ncua-btn__label\">Card / Header</span></button>''"

definition one_instance_result :: GeneratedNcdsHtml where
  "one_instance_result =
     \<lparr>html = ''<div class=\"figma-container\">\<newline>'' @ button_markup @ ''\<newline></div>'',
      css = Some generateNcdsCss,
      imports = Some [''Button''],
      componentUsage = [(''Button'', 1)]\<rparr>"

text \<open>A design of one frame that no rule matches, and a generator that has run before.\<close>

definition design_one_table :: "unit SimplifiedDesign" where
  "design_one_table = \<lparr>nodes = [table_node], design_globalVars = ()\<rparr>"

definition used_generator :: "unit generator" where
  "used_generator = default_generator\<lparr>usage := one_button\<rparr>"

definition one_table_result :: GeneratedNcdsHtml where
  "one_table_result =
     \<lparr>html = ''<div class=\"figma-container\">\<newline>'' @
             ''<div id=\"data_table\" class=\"figma-frame\"></div>'' @ ''\<newline></div>'',
      css = Some generateNcdsCss,
      imports = Some [],
      componentUsage = []\<rparr>"

section \<open>Facts about the string search\<close>

lemma startsWith_iff: "startsWith s t \<longleftrightarrow> (\<exists>q. s = t @ q)"
  by (induction s t rule: startsWith.induct) auto

lemma includes_str_iff: "includes_str s t \<longleftrightarrow> (\<exists>p q. s = p @ t @ q)"
proof (induction s)
  case Nil
  then show ?case by auto
next
  case (Cons a s)
  show ?case
  proof
    assume "includes_str (a # s) t"
    then consider "startsWith (a # s) t" | "includes_str s t" by auto
    then show "\<exists>p q. a # s = p @ t @ q"
    proof cases
      case 1
      then obtain q where "a # s = t @ q" by (auto simp: startsWith_iff)
      then have "a # s = [] @ t @ q" by simp
      then show ?thesis by blast
    next
      case 2
      then obtain p q where "s = p @ t @ q" using Cons.IH by blast
      then have "a # s = (a # p) @ t @ q" by simp
      then show ?thesis by blast
    qed
  next
    assume "\<exists>p q. a # s = p @ t @ q"
    then obtain p q where pq: "a # s = p @ t @ q" by blast
    show "includes_str (a # s) t"
    proof (cases p)
      case Nil
      with pq have "startsWith (a # s) t" by (auto simp: startsWith_iff)
      then show ?thesis by simp
    next
      case (Cons b p')
      with pq have "s = p' @ t @ q" by simp
      then have "includes_str s t" using Cons.IH by blast
      then show ?thesis by simp
    qed
  qed
qed

lemma includes_str_sub:
  assumes "includes_str s (u @ t @ v)"
  shows "includes_str s t"
proof -
  from assms obtain p q where "s = p @ (u @ t @ v) @ q" by (auto simp: includes_str_iff)
  then have "s = (p @ u) @ t @ (v @ q)" by simp
  then show ?thesis unfolding includes_str_iff by blast
qed

lemma includes_2xl_xl: "includes_str s ''2xl'' \<Longrightarrow> includes_str s ''xl''"
  using includes_str_sub [of s "''2''" "''xl''" "[]"] by simp

section \<open>Size inference\<close>

text \<open>
  The test for \<open>xl\<close> comes before the test for \<open>2xl\<close>, and the test for \<open>large\<close> before
  the test for \<open>xxlarge\<close>: the branch that returns \<open>2xl\<close> is never reached.
\<close>

lemma inferSize_never_2xl: "inferSize node \<noteq> ''2xl''"
  unfolding inferSize_def Let_def
  using includes_2xl_xl [of "toLowerCase (name node)"]
     includes_str_sub [of "toLowerCase (name node)" "''xx''" "''large''" "[]"]
  by auto

lemma inferSize_no_token:
  assumes "\<forall>t \<in> set [''xxs'', ''tiny'', ''xs'', ''small'', ''sm'', ''lg'', ''large'', ''xl'',
             ''xlarge'', ''2xl'', ''xxlarge'']. \<not> includes_str (toLowerCase (name node)) t"
  shows "inferSize node = ''md''"
  using assms by (simp add: inferSize_def)

text \<open>
  Claim C1. Size inference is total and order-sensitive: a node whose name contains the
  token \<open>2xl\<close> is to infer \<open>2xl\<close> and not \<open>xl\<close>, a node whose name has no size token infers
  \<open>md\<close>. At the frame named "Button 2xl", which has a layout, the code infers \<open>xl\<close>.
\<close>

theorem inferSize_2xl_gives_xl:
  "includes_str (toLowerCase (name n2xl)) ''2xl'' \<and> layout n2xl \<noteq> None \<and>
   inferSize n2xl = ''xl'' \<and> inferSize n2xl \<noteq> ''2xl''"
  by (simp add: n2xl_def inferSize_def toLowerCase_def lower_char_def)

section \<open>Classification\<close>

lemma bindE_Inr: "bindE r f = Inr v \<longleftrightarrow> (\<exists>x. r = Inr x \<and> f x = Inr v)"
  by (cases r) (simp_all add: bindE_def)

lemma mapper_Button_component: "mapper_Button node = Inr m \<Longrightarrow> component m = ''Button''"
  by (auto simp: mapper_Button_def bindE_Inr)

lemma mapper_Input_component: "mapper_Input node = Inr m \<Longrightarrow> component m = ''InputBase''"
  by (auto simp: mapper_Input_def bindE_Inr)

lemma mapper_Checkbox_component: "mapper_Checkbox node = Inr m \<Longrightarrow> component m = ''Checkbox''"
  by (auto simp: mapper_Checkbox_def bindE_Inr)

lemma mapper_Radio_component: "mapper_Radio node = Inr m \<Longrightarrow> component m = ''Radio''"
  by (auto simp: mapper_Radio_def bindE_Inr)

lemma mapper_Select_component: "mapper_Select node = Inr m \<Longrightarrow> component m = ''Select''"
  by (auto simp: mapper_Select_def bindE_Inr)

lemma mapper_Badge_component: "mapper_Badge node = Inr m \<Longrightarrow> component m = ''Badge''"
  by (auto simp: mapper_Badge_def bindE_Inr)

lemma mapper_Modal_component: "mapper_Modal node = Inr m \<Longrightarrow> component m = ''Modal''"
  by (auto simp: mapper_Modal_def bindE_Inr)

lemma mapper_Tab_component: "mapper_Tab node = Inr m \<Longrightarrow> component m = ''HorizontalTab''"
  by (auto simp: mapper_Tab_def bindE_Inr)

lemma mapper_Pagination_component: "mapper_Pagination node = Inr m \<Longrightarrow> component m = ''Pagination''"
  by (auto simp: mapper_Pagination_def bindE_Inr)

lemma mapper_ProgressBar_component: "mapper_ProgressBar node = Inr m \<Longrightarrow> component m = ''ProgressBar''"
  by (auto simp: mapper_ProgressBar_def bindE_Inr)

lemma mapper_Notification_component: "mapper_Notification node = Inr m \<Longrightarrow> component m = ''Notification''"
  by (auto simp: mapper_Notification_def bindE_Inr)

lemma mapper_VerticalTab_component: "mapper_VerticalTab node = Inr m \<Longrightarrow> component m = ''VerticalTab''"
  by (auto simp: mapper_VerticalTab_def bindE_Inr)

lemma mapper_ProgressCircle_component: "mapper_ProgressCircle node = Inr m \<Longrightarrow> component m = ''ProgressCircle''"
  by (auto simp: mapper_ProgressCircle_def bindE_Inr)

lemma mapper_Spinner_component: "mapper_Spinner node = Inr m \<Longrightarrow> component m = ''Spinner''"
  by (auto simp: mapper_Spinner_def bindE_Inr)

lemma mapper_Tag_component: "mapper_Tag node = Inr m \<Longrightarrow> component m = ''Tag''"
  by (auto simp: mapper_Tag_def bindE_Inr)

lemma mapper_Toggle_component: "mapper_Toggle node = Inr m \<Longrightarrow> component m = ''Toggle''"
  by (auto simp: mapper_Toggle_def bindE_Inr)

lemma mapper_Tooltip_component: "mapper_Tooltip node = Inr m \<Longrightarrow> component m = ''Tooltip''"
  by (auto simp: mapper_Tooltip_def bindE_Inr)

lemma mapper_Slider_component: "mapper_Slider node = Inr m \<Longrightarrow> component m = ''Slider''"
  by (auto simp: mapper_Slider_def bindE_Inr)

lemma mapper_BreadCrumb_component: "mapper_BreadCrumb node = Inr m \<Longrightarrow> component m = ''BreadCrumb''"
  by (auto simp: mapper_BreadCrumb_def bindE_Inr)

lemma mapper_Divider_component: "mapper_Divider node = Inr m \<Longrightarrow> component m = ''Divider''"
  by (auto simp: mapper_Divider_def bindE_Inr)

lemma mapper_Dropdown_component: "mapper_Dropdown node = Inr m \<Longrightarrow> component m = ''Dropdown''"
  by (auto simp: mapper_Dropdown_def bindE_Inr)

lemma mapper_EmptyState_component: "mapper_EmptyState node = Inr m \<Longrightarrow> component m = ''EmptyState''"
  by (auto simp: mapper_EmptyState_def bindE_Inr)

lemma mapper_FeaturedIcon_component: "mapper_FeaturedIcon node = Inr m \<Longrightarrow> component m = ''FeaturedIcon''"
  by (auto simp: mapper_FeaturedIcon_def bindE_Inr)

lemmas mapper_component =
  mapper_Button_component mapper_Input_component mapper_Checkbox_component
  mapper_Radio_component mapper_Select_component mapper_Badge_component
  mapper_Modal_component mapper_Tab_component mapper_Pagination_component
  mapper_ProgressBar_component mapper_Notification_component mapper_VerticalTab_component
  mapper_ProgressCircle_component mapper_Spinner_component mapper_Tag_component
  mapper_Toggle_component mapper_Tooltip_component mapper_Slider_component
  mapper_BreadCrumb_component mapper_Divider_component mapper_Dropdown_component
  mapper_EmptyState_component mapper_FeaturedIcon_component

lemma mapToNcdsComponent_Tag:
  assumes "mapToNcdsComponent node = Inr (Some m)" and "component m = ''Tag''"
  shows "cond_Tag node \<and> \<not> cond_Badge node"
  using assms
  by (auto simp: mapToNcdsComponent_def NCDS_COMPONENT_RULES_def bindE_Inr
      split: if_splits dest!: mapper_component)

lemma mapToNcdsComponent_HorizontalTab:
  assumes "mapToNcdsComponent node = Inr (Some m)" and "component m = ''HorizontalTab''"
  shows "cond_Tab node"
  using assms
  by (auto simp: mapToNcdsComponent_def NCDS_COMPONENT_RULES_def bindE_Inr
      split: if_splits dest!: mapper_component)

lemma cond_Tag_Badge: "cond_Tag node \<Longrightarrow> cond_Badge node"
  by (auto simp: cond_Tag_def cond_Badge_def Let_def)

text \<open>
  Claim C2. For every node whose type is \<open>INSTANCE\<close>, classification returns a mapping whose
  component kind is Button, whatever the name of the node.
\<close>

theorem instance_is_Button:
  assumes "type node = ''INSTANCE''"
  shows "\<exists>m. mapToNcdsComponent node = Inr (Some m) \<and> component m = ''Button''"
  using assms
  by (simp add: mapToNcdsComponent_def NCDS_COMPONENT_RULES_def cond_Button_def
      mapper_Button_def bindE_def)

theorem instance_is_Button_witness:
  "type instance_node = ''INSTANCE'' \<and>
   (\<exists>m. mapToNcdsComponent instance_node = Inr (Some m) \<and> component m = ''Button'')"
  using instance_is_Button [of instance_node] by (simp add: instance_node_def)

text \<open>
  Claim C3. Classification never returns a mapping of kind Tag: every node that satisfies
  the condition of the Tag rule satisfies the condition of the earlier Badge rule, so the
  first match is the Badge rule or a rule before it.
\<close>

theorem Tag_never_returned:
  "(cond_Tag node \<longrightarrow> cond_Badge node) \<and>
   (\<forall>m. mapToNcdsComponent node = Inr (Some m) \<longrightarrow> component m \<noteq> ''Tag'')"
  using cond_Tag_Badge mapToNcdsComponent_Tag by blast

theorem Tag_never_returned_witness:
  "cond_Tag tag_node \<and> cond_Badge tag_node \<and>
   (\<exists>m. mapToNcdsComponent tag_node = Inr (Some m) \<and> component m = ''Badge'' \<and>
        component m \<noteq> ''Tag'')"
proof -
  have t: "cond_Tag tag_node"
    by (simp add: tag_node_def cond_Tag_def toLowerCase_def lower_char_def)
  have b: "cond_Badge tag_node"
    using Tag_never_returned [of tag_node] t by blast
  have "\<not> cond_Button tag_node"
    by (simp add: tag_node_def cond_Button_def)
  moreover have "\<not> cond_Input tag_node" "\<not> cond_Checkbox tag_node" "\<not> cond_Radio tag_node"
    "\<not> cond_Select tag_node"
    by (simp_all add: tag_node_def cond_Input_def cond_Checkbox_def cond_Radio_def cond_Select_def)
  ultimately have "\<exists>m. mapToNcdsComponent tag_node = Inr (Some m) \<and> component m = ''Badge''"
    using b
    by (simp add: mapToNcdsComponent_def NCDS_COMPONENT_RULES_def mapper_Badge_def bindE_def)
  then obtain m where m: "mapToNcdsComponent tag_node = Inr (Some m)" "component m = ''Badge''"
    by blast
  with Tag_never_returned [of tag_node] have "component m \<noteq> ''Tag''" by blast
  with t b m show ?thesis by blast
qed

text \<open>
  Claim C6. \<open>validateNcdsMapping\<close> returns true if and only if the component kind of the
  mapping is one of the twenty-three supported kinds; it is a function of the mapping alone.
\<close>

theorem validateNcdsMapping_iff:
  "validateNcdsMapping mapping \<longleftrightarrow>
   component mapping \<in>
     {''Button'', ''InputBase'', ''Checkbox'', ''Radio'', ''Select'', ''Badge'', ''Modal'',
      ''HorizontalTab'', ''VerticalTab'', ''Pagination'', ''ProgressBar'', ''ProgressCircle'',
      ''Notification'', ''Spinner'', ''Tag'', ''Tooltip'', ''Slider'', ''Toggle'',
      ''BreadCrumb'', ''Divider'', ''Dropdown'', ''EmptyState'', ''FeaturedIcon''}"
  by (simp add: validateNcdsMapping_def validComponents_def)

theorem validateNcdsMapping_witness:
  "validateNcdsMapping \<lparr>component = ''Tag'', props = no_props, htmlTag = ''span'', className = ''ncua-tag''\<rparr> \<and>
   \<not> validateNcdsMapping \<lparr>component = ''Table'', props = no_props, htmlTag = ''div'', className = ''x''\<rparr>"
  using validateNcdsMapping_iff [of "\<lparr>component = ''Tag'', props = no_props, htmlTag = ''span'', className = ''ncua-tag''\<rparr>"]
    validateNcdsMapping_iff [of "\<lparr>component = ''Table'', props = no_props, htmlTag = ''div'', className = ''x''\<rparr>"]
  by simp

text \<open>
  Claim C7. For every node whose lower-cased name contains \<open>tab\<close> and also \<open>table\<close>, the
  condition of the Tab rule does not hold, and classification returns no HorizontalTab
  mapping for it.
\<close>

theorem Tab_rule_excludes_table:
  assumes "includes_str (toLowerCase (name node)) ''tab''"
    and "includes_str (toLowerCase (name node)) ''table''"
  shows "\<not> cond_Tab node \<and>
    (\<forall>m. mapToNcdsComponent node = Inr (Some m) \<longrightarrow> component m \<noteq> ''HorizontalTab'')"
proof -
  from assms have "\<not> cond_Tab node" by (simp add: cond_Tab_def)
  then show ?thesis using mapToNcdsComponent_HorizontalTab by blast
qed

lemma mapToNcdsComponent_table_node: "mapToNcdsComponent table_node = Inr None"
proof -
  have l: "toLowerCase (name table_node) = ''data table''"
    by (simp add: table_node_def toLowerCase_def lower_char_def)
  have t: "type table_node = ''FRAME''" by (simp add: table_node_def)
  show ?thesis
    by (simp add: mapToNcdsComponent_def NCDS_COMPONENT_RULES_def l t
        cond_Button_def cond_Input_def cond_Checkbox_def cond_Radio_def cond_Select_def
        cond_Badge_def cond_Modal_def cond_Tab_def cond_Pagination_def cond_ProgressBar_def
        cond_Notification_def cond_VerticalTab_def cond_ProgressCircle_def cond_Spinner_def
        cond_Tag_def cond_Toggle_def cond_Tooltip_def cond_Slider_def cond_BreadCrumb_def
        cond_Divider_def cond_Dropdown_def cond_EmptyState_def cond_FeaturedIcon_def)
qed

theorem Tab_rule_excludes_table_witness:
  "includes_str (toLowerCase (name table_node)) ''tab'' \<and>
   includes_str (toLowerCase (name table_node)) ''table'' \<and>
   type table_node = ''FRAME'' \<and>
   \<not> cond_Tab table_node \<and> mapToNcdsComponent table_node = Inr None"
proof -
  have a: "includes_str (toLowerCase (name table_node)) ''tab''"
    and b: "includes_str (toLowerCase (name table_node)) ''table''"
    by (simp_all add: table_node_def toLowerCase_def lower_char_def)
  have c: "\<not> cond_Tab table_node"
    using Tab_rule_excludes_table [OF a b] by blast
  have t: "type table_node = ''FRAME''" by (simp add: table_node_def)
  from a b c t mapToNcdsComponent_table_node show ?thesis by blast
qed

text \<open>
  Claim C10. For every node of type \<open>FRAME\<close> whose lower-cased name contains \<open>text\<close> but not
  \<open>label\<close>, and which the Button rule does not match (the type is not \<open>INSTANCE\<close> and the
  name contains none of \<open>button\<close>, \<open>btn\<close>, \<open>click\<close>, \<open>submit\<close>), classification returns an
  InputBase mapping.
\<close>

theorem text_frame_is_Input:
  assumes "type node = ''FRAME''"
    and "includes_str (toLowerCase (name node)) ''text''"
    and "\<not> includes_str (toLowerCase (name node)) ''label''"
    and "type node \<noteq> ''INSTANCE''"
    and "\<not> includes_str (toLowerCase (name node)) ''button''"
    and "\<not> includes_str (toLowerCase (name node)) ''btn''"
    and "\<not> includes_str (toLowerCase (name node)) ''click''"
    and "\<not> includes_str (toLowerCase (name node)) ''submit''"
  shows "cond_Input node \<and>
    (\<exists>m. mapToNcdsComponent node = Inr (Some m) \<and> component m = ''InputBase'')"
  using assms
  by (simp add: mapToNcdsComponent_def NCDS_COMPONENT_RULES_def cond_Button_def cond_Input_def
      mapper_Input_def bindE_def)

theorem text_frame_is_Input_witness:
  "type text_frame = ''FRAME'' \<and> includes_str (toLowerCase (name text_frame)) ''text'' \<and>
   \<not> includes_str (toLowerCase (name text_frame)) ''label'' \<and>
   \<not> includes_str (toLowerCase (name text_frame)) ''input'' \<and>
   \<not> includes_str (toLowerCase (name text_frame)) ''field'' \<and>
   (\<exists>m. mapToNcdsComponent text_frame = Inr (Some m) \<and> component m = ''InputBase'')"
proof -
  have l: "toLowerCase (name text_frame) = ''body text''"
    by (simp add: text_frame_def toLowerCase_def lower_char_def)
  have t: "type text_frame = ''FRAME''" by (simp add: text_frame_def)
  show ?thesis
    using text_frame_is_Input [of text_frame] by (simp add: l t)
qed

section \<open>Dropdown items\<close>

text \<open>
  Claim C4, as stated: every text-bearing child becomes a label/value pair whose value is
  its 1-based position, and a node none of whose children bears text gets the fixed
  two-item default list. The node \<open>dropdown_no_text\<close> has one child, without text, and gets
  the empty list.
\<close>

theorem extractDropdownItems_counterexample:
  "children dropdown_no_text = Some [icon_child] \<and> \<not> truthy_str (node_text icon_child) \<and>
   extractDropdownItems dropdown_no_text = Inr [] \<and>
   extractDropdownItems dropdown_no_text \<noteq> Inr default_dropdown_items"
  by (simp add: dropdown_no_text_def icon_child_def extractDropdownItems_def
      default_dropdown_items_def bindE_def deref_def)

text \<open>
  Claim C4, amended: a node without a \<open>children\<close> field gets the fixed two-item default
  list. A node with a \<open>children\<close> field gets one item per text-bearing child, in order: the
  label is the text of the child and the value is the 1-based position of the child among
  the text-bearing children, in decimal. If none of the children bears text the list is
  empty.
\<close>

theorem extractDropdownItems_amended:
  "(children node = None \<longrightarrow> extractDropdownItems node = Inr default_dropdown_items) \<and>
   (\<forall>cs. children node = Some cs \<longrightarrow>
      (\<exists>its. extractDropdownItems node = Inr its \<and>
         length its = length (text_bearing cs) \<and>
         (\<forall>k < length its.
            item_label (its ! k) = the (node_text (text_bearing cs ! k)) \<and>
            item_value (its ! k) = Some (natToString (k + 1)))))"
proof (intro conjI allI impI)
  assume "children node = None"
  then show "extractDropdownItems node = Inr default_dropdown_items"
    by (simp add: extractDropdownItems_def)
next
  fix cs
  assume cs: "children node = Some cs"
  let ?ts = "text_bearing cs"
  let ?its = "map (\<lambda>(index, child).
                    Item (or_else (node_text child) (ko_option @ '' '' @ natToString (index + 1)))
                      None (Some (natToString (index + 1))))
               (enumerate 0 ?ts)"
  have r: "extractDropdownItems node = Inr ?its"
    using cs by (simp add: extractDropdownItems_def bindE_def deref_def text_bearing_def)
  have len: "length ?its = length ?ts" by simp
  have "\<forall>k < length ?its.
          item_label (?its ! k) = the (node_text (?ts ! k)) \<and>
          item_value (?its ! k) = Some (natToString (k + 1))"
  proof (intro allI impI)
    fix k
    assume k: "k < length ?its"
    then have k': "k < length ?ts" by simp
    then have "?ts ! k \<in> set ?ts" by simp
    then have tr: "truthy_str (node_text (?ts ! k))" by (simp add: text_bearing_def)
    from k' show "item_label (?its ! k) = the (node_text (?ts ! k)) \<and>
          item_value (?its ! k) = Some (natToString (k + 1))"
      using tr by (simp add: nth_enumerate_eq or_else_def)
  qed
  with r len show "\<exists>its. extractDropdownItems node = Inr its \<and>
         length its = length (text_bearing cs) \<and>
         (\<forall>k < length its.
            item_label (its ! k) = the (node_text (text_bearing cs ! k)) \<and>
            item_value (its ! k) = Some (natToString (k + 1)))"
    by blast
qed

theorem extractDropdownItems_amended_witness:
  "children dropdown_two \<noteq> None \<and>
   (\<exists>its. extractDropdownItems dropdown_two = Inr its \<and> length its = 2 \<and>
      item_label (its ! 0) = ''Apple'' \<and> item_value (its ! 0) = Some ''1'' \<and>
      item_label (its ! 1) = ''Pear'' \<and> item_value (its ! 1) = Some ''2'') \<and>
   children icon_child = None \<and>
   extractDropdownItems icon_child = Inr default_dropdown_items"
proof -
  let ?cs = "[Node ''4:4'' ''A'' ''TEXT'' (Some ''Apple'') None None None None, icon_child,
              Node ''4:5'' ''B'' ''TEXT'' (Some ''Pear'') None None None None]"
  have c: "children dropdown_two = Some ?cs" by (simp add: dropdown_two_def)
  have tb: "text_bearing ?cs =
      [Node ''4:4'' ''A'' ''TEXT'' (Some ''Apple'') None None None None,
       Node ''4:5'' ''B'' ''TEXT'' (Some ''Pear'') None None None None]"
    by (simp add: text_bearing_def icon_child_def)
  from extractDropdownItems_amended [of dropdown_two] c
  obtain its where its: "extractDropdownItems dropdown_two = Inr its"
      "length its = length (text_bearing ?cs)"
      "\<forall>k < length its.
            item_label (its ! k) = the (node_text (text_bearing ?cs ! k)) \<and>
            item_value (its ! k) = Some (natToString (k + 1))"
    by blast
  from its(2) have l: "length its = 2" by (simp add: tb)
  from its(3) l have "item_label (its ! 0) = the (node_text (text_bearing ?cs ! 0)) \<and>
            item_value (its ! 0) = Some (natToString (0 + 1))" by simp
  then have k0: "item_label (its ! 0) = ''Apple''" "item_value (its ! 0) = Some ''1''"
    by (simp_all add: tb natToString.simps)
  from its(3) l have "item_label (its ! 1) = the (node_text (text_bearing ?cs ! 1)) \<and>
            item_value (its ! 1) = Some (natToString (1 + 1))" by simp
  then have k1: "item_label (its ! 1) = ''Pear''" "item_value (its ! 1) = Some ''2''"
    by (simp_all add: tb natToString.simps)
  have d: "extractDropdownItems icon_child = Inr default_dropdown_items"
    using extractDropdownItems_amended [of icon_child] by (simp add: icon_child_def)
  from c its(1) l k0 k1 d show ?thesis by (simp add: icon_child_def)
qed

section \<open>No call raises\<close>

lemma findChildText_total: "\<exists>r. findChildText node ty = Inr r"
  by (cases "children node") (simp_all add: findChildText_def bindE_def deref_def)

lemma extractTabItems_total: "\<exists>r. extractTabItems node = Inr r"
  by (cases "children node") (simp_all add: extractTabItems_def bindE_def deref_def)

lemma extractDropdownItems_total: "\<exists>r. extractDropdownItems node = Inr r"
  by (cases "children node") (simp_all add: extractDropdownItems_def bindE_def deref_def)

lemma bindE_total:
  assumes "\<exists>x. r = Inr x" and "\<And>x. \<exists>y. f x = Inr y"
  shows "\<exists>y. bindE r f = Inr y"
  using assms by (auto simp: bindE_def)

lemma rules_total:
  "\<forall>rule \<in> set NCDS_COMPONENT_RULES. \<forall>node. \<exists>m. mapper rule node = Inr m"
  unfolding NCDS_COMPONENT_RULES_def
  by (auto simp: mapper_Button_def mapper_Input_def mapper_Checkbox_def mapper_Radio_def
      mapper_Select_def mapper_Badge_def mapper_Modal_def mapper_Tab_def mapper_Pagination_def
      mapper_ProgressBar_def mapper_Notification_def mapper_VerticalTab_def
      mapper_ProgressCircle_def mapper_Spinner_def mapper_Tag_def mapper_Toggle_def
      mapper_Tooltip_def mapper_Slider_def mapper_BreadCrumb_def mapper_Divider_def
      mapper_Dropdown_def mapper_EmptyState_def mapper_FeaturedIcon_def
      intro!: bindE_total findChildText_total extractTabItems_total extractDropdownItems_total)

lemma first_rule_total:
  assumes "\<forall>rule \<in> set rules. \<forall>node. \<exists>m. mapper rule node = Inr m"
  shows "\<exists>r. first_rule rules node = Inr r"
  using assms
proof (induction rules)
  case Nil
  then show ?case by simp
next
  case (Cons rule rules)
  from Cons.prems have "\<exists>m. mapper rule node = Inr m" by simp
  then obtain m where m: "mapper rule node = Inr m" by blast
  from Cons.prems have "\<forall>rule \<in> set rules. \<forall>node. \<exists>m. mapper rule node = Inr m" by simp
  from Cons.IH [OF this] obtain r where r: "first_rule rules node = Inr r" by blast
  show ?case using m r by (simp add: bindE_def)
qed

lemma mapToNcdsComponent_total: "\<exists>r. mapToNcdsComponent node = Inr r"
  unfolding mapToNcdsComponent_def using first_rule_total [OF rules_total] .

lemma generateSelectHtml_total: "\<exists>h. generateSelectHtml id' cn p node = Inr h"
  by (cases "children node") (simp_all add: generateSelectHtml_def bindE_def deref_def Let_def)

lemma switch_total:
  "\<exists>h. generateNcdsComponentHtml_switch num_str mapping id' cn p ch node = Inr h"
  using generateSelectHtml_total [of id' cn p node]
  by (auto simp: generateNcdsComponentHtml_switch_def Let_def)

lemma render_total:
  "\<exists>r. generateNodesHtml num_str opts ns st1 = Inr r"
  "\<exists>r. generateNodesHtml_map num_str opts ms st2 = Inr r"
  "\<exists>r. generateNodeHtml num_str opts n3 st3 = Inr r"
  "\<exists>r. generateNcdsComponentHtml num_str opts mapping n4 st4 = Inr r"
  "\<exists>r. generateRegularHtml num_str opts n5 st5 = Inr r"
  "\<exists>r. generateChildren num_str opts n6 st6 = Inr r"
proof (induction num_str opts ns st1 and num_str opts ms st2 and num_str opts n3 st3
    and num_str opts mapping n4 st4 and num_str opts n5 st5 and num_str opts n6 st6
    rule: generateNodesHtml_generateNodesHtml_map_generateNodeHtml_generateNcdsComponentHtml_generateRegularHtml_generateChildren.induct)
  case (1 num_str opts ns st)
  then obtain hs st1 where "generateNodesHtml_map num_str opts ns st = Inr (hs, st1)"
    by force
  then show ?case by (simp add: generateNodesHtml.simps)
next
  case (2 num_str opts st)
  show ?case by simp
next
  case (3 num_str opts node ns st)
  from "3.IH"(1) obtain h st1 where a: "generateNodeHtml num_str opts node st = Inr (h, st1)"
    by force
  from "3.IH"(2) [OF a refl] obtain hs st2
    where b: "generateNodesHtml_map num_str opts ns st1 = Inr (hs, st2)"
    by force
  show ?case using a b by simp
next
  case (4 num_str opts node st)
  obtain r where r: "mapToNcdsComponent node = Inr r"
    using mapToNcdsComponent_total by blast
  show ?case
  proof (cases r)
    case None
    with "4.IH"(1) [OF r] r show ?thesis by (simp add: generateNodeHtml.simps)
  next
    case (Some m)
    show ?thesis
    proof (cases "validateNcdsMapping m")
      case True
      with "4.IH"(2) [OF r Some] r Some show ?thesis by (simp add: generateNodeHtml.simps)
    next
      case False
      with "4.IH"(3) [OF r Some] r Some show ?thesis by (simp add: generateNodeHtml.simps)
    qed
  qed
next
  case (5 num_str opts mapping node st)
  from "5.IH" [OF refl refl refl refl] obtain ch st2 where
    c: "generateChildren num_str opts node
          (st\<lparr>usedComponents := set_add (component mapping) (usedComponents st),
              componentCounter := counter_set (componentCounter st) (component mapping)
                (counter_get (componentCounter st) (component mapping) + 1)\<rparr>) = Inr (ch, st2)"
    by force
  obtain h where h: "generateNcdsComponentHtml_switch num_str mapping (generateId opts node)
      (generateClassName mapping) (generateNcdsProps (props mapping)) ch node = Inr h"
    using switch_total by blast
  show ?case using c h by (simp add: generateNcdsComponentHtml.simps Let_def)
next
  case (6 num_str opts node st)
  from "6.IH" [OF refl refl refl refl] obtain ch st1 where
    c: "generateChildren num_str opts node st = Inr (ch, st1)"
    by force
  show ?case using c by (simp add: generateRegularHtml.simps Let_def)
next
  case (7 num_str opts node st)
  show ?case
  proof (cases "children node")
    case None
    then show ?thesis by (simp add: generateChildren.simps)
  next
    case (Some cs)
    with "7.IH" [OF Some] show ?thesis
      by (cases "length cs = 0") (auto simp: generateChildren.simps)
  qed
qed

section \<open>Progress values\<close>

text \<open>The value of \<open>Math.min(Math.max(props.progress || 0, 0), 100)\<close>.\<close>

lemma clamped_progress_range:
  assumes "\<not> progress_not_a_number p"
  shows "\<exists>r. Math_min (Math_max (ToNumber (or_val (vals p ''progress'') (JNumber (Num 0))))
              (Num 0)) (Num 100) = Num r \<and> 0 \<le> r \<and> r \<le> 100"
proof (cases "vals p ''progress''")
  case None
  then show ?thesis by (simp add: or_val_def Math_max_def Math_min_def)
next
  case (Some a)
  show ?thesis
  proof (cases a)
    case JNull
    with Some show ?thesis by (simp add: or_val_def Math_max_def Math_min_def)
  next
    case (JBool b)
    with Some show ?thesis by (simp add: or_val_def Math_max_def Math_min_def)
  next
    case (JNumber x)
    with Some show ?thesis
      by (cases x) (auto simp: or_val_def Math_max_def Math_min_def)
  next
    case (JString s)
    show ?thesis
    proof (cases "s = []")
      case True
      with Some JString show ?thesis by (simp add: or_val_def Math_max_def Math_min_def)
    next
      case False
      with assms Some JString have n: "StringToNumber s \<noteq> NaN"
        by (simp add: progress_not_a_number_def)
      with False Some JString show ?thesis
        by (cases "StringToNumber s") (auto simp: or_val_def Math_max_def Math_min_def)
    qed
  qed
qed

lemma clamped_progress_NaN:
  assumes "progress_not_a_number p"
  shows "Math_min (Math_max (ToNumber (or_val (vals p ''progress'') (JNumber (Num 0))))
              (Num 0)) (Num 100) = NaN"
  using assms
  by (auto simp: progress_not_a_number_def or_val_def Math_max_def Math_min_def
      split: option.splits jsval.splits)

text \<open>
  Claim C8, as stated: for every props input the progress value that the markup embeds lies
  between 0 and 100. The templates take \<open>props: any\<close>. With the progress "abc" the value is
  \<open>NaN\<close>, and the progress bar reads \<open>width: NaN%\<close>.
\<close>

theorem progress_abc_counterexample:
  "vals props_abc ''progress'' = Some (JString ''abc'') \<and>
   ToNumber (vals props_abc ''progress'') = NaN \<and>
   Math_min (Math_max (ToNumber (or_val (vals props_abc ''progress'') (JNumber (Num 0))))
     (Num 0)) (Num 100) = NaN \<and>
   generateProgressBarHtml integer_num_str ''bar'' ''c'' props_abc instance_node =
     ''\<newline>'' @
     ''<div id=\"bar\" class=\"ncua-progress-bar ncua-progress-bar-none\">\<newline>'' @
     ''  <div class=\"ncua-progress-bar__content\">\<newline>'' @
     ''    <div class=\"ncua-progress-bar__bar\">\<newline>'' @
     ''      <div class=\"ncua-progress-bar__fill\" style=\"width: NaN%\"'' @
     '' aria-valuenow=\"NaN\" aria-valuemin=\"0\" aria-valuemax=\"100\"></div>\<newline>'' @
     ''    </div>\<newline>'' @
     ''    \<newline>'' @
     ''  </div>\<newline>'' @
     ''  \<newline>'' @
     ''</div>''"
  by code_simp

text \<open>
  Claim C8, amended: for every props input whose progress is absent, \<open>null\<close>, a boolean, a
  number (150, -20, \<open>NaN\<close> and the infinities among them) or a string, unless the progress
  is a non-empty string that does not convert to a number, the one value \<open>v\<close> that the
  ProgressBar markup prints as fill width and as \<open>aria-valuenow\<close> (and as label), and that the
  ProgressCircle markup prints as percent text and uses for the dash offset, is a number
  between 0 and 100. For a non-empty string that does not convert to a number it is \<open>NaN\<close>.
\<close>

theorem progress_markup_within_0_100:
  "\<exists>v. (progress_not_a_number p \<longrightarrow> v = NaN) \<and>
       (\<not> progress_not_a_number p \<longrightarrow> (\<exists>r. v = Num r \<and> 0 \<le> r \<and> r \<le> 100)) \<and>
       generateProgressBarHtml num_str ident cls p node =
         (let label = or_else (strs p ''label'') ''none'';
              showValue = truthy_bool (bools p ''showValue'')
          in
          ''\<newline>'' @
          ''<div'' @ (if ident \<noteq> [] then '' id=\"'' @ ident @ ''\"'' else []) @
          '' class=\"ncua-progress-bar ncua-progress-bar-'' @ label @ ''\">\<newline>'' @
          ''  <div class=\"ncua-progress-bar__content\">\<newline>'' @
          ''    <div class=\"ncua-progress-bar__bar\">\<newline>'' @
          ''      <div class=\"ncua-progress-bar__fill\" style=\"width: '' @ num_str v @
          ''%\" aria-valuenow=\"'' @ num_str v @
          ''\" aria-valuemin=\"0\" aria-valuemax=\"100\"></div>\<newline>'' @
          ''    </div>\<newline>'' @
          ''    '' @
          (if showValue \<and> label = ''right'' then ''<span class=\"ncua-progress-bar__label ncua-progress-bar__label-right\">'' @ num_str v @
          ''%</span>'' else []) @
          ''\<newline>'' @
          ''  </div>\<newline>'' @
          ''  '' @
          (if showValue \<and> label = ''bottom'' then ''<span class=\"ncua-progress-bar__label ncua-progress-bar__label-bottom\">'' @ num_str v @
          ''%</span>'' else []) @
          ''\<newline>'' @
          ''</div>'') \<and>
       generateProgressCircleHtml num_str ident cls p node =
         (let size = or_else (strs p ''size'') ''md'';
              strokeWidth = or_num (nums p ''strokeWidth'') (Num 4);
              radius = jsub (Num 50) strokeWidth;
              circumference = jmul (jmul (Num 2) (Num Math_PI)) radius;
              strokeDashoffset = jsub circumference (jmul (jdiv v (Num 100)) circumference)
          in
          ''\<newline>'' @
          ''<div'' @ (if ident \<noteq> [] then '' id=\"'' @ ident @ ''\"'' else []) @
          '' class=\"ncua-progress-circle ncua-progress-circle--'' @ size @ ''\">\<newline>'' @
          ''  <svg class=\"ncua-progress-circle__svg\" viewBox=\"0 0 100 100\">\<newline>'' @
          ''    <circle class=\"ncua-progress-circle__bg\" cx=\"50\" cy=\"50\" r=\"'' @
          num_str radius @ ''\" stroke-width=\"'' @ num_str strokeWidth @
          ''\"></circle>\<newline>'' @
          ''    <circle class=\"ncua-progress-circle__progress\" cx=\"50\" cy=\"50\" r=\"'' @
          num_str radius @ ''\" stroke-width=\"'' @ num_str strokeWidth @ ''\" \<newline>'' @
          ''            style=\"stroke-dasharray: '' @ num_str circumference @
          ''; stroke-dashoffset: '' @ num_str strokeDashoffset @ '';\"></circle>\<newline>'' @
          ''  </svg>\<newline>'' @
          ''  <div class=\"ncua-progress-circle__text\">'' @ num_str v @ ''%</div>\<newline>'' @
          ''</div>'')"
proof -
  let ?v = "Math_min (Math_max (ToNumber (or_val (vals p ''progress'') (JNumber (Num 0))))
              (Num 0)) (Num 100)"
  have a: "progress_not_a_number p \<longrightarrow> ?v = NaN"
    using clamped_progress_NaN by blast
  have b: "\<not> progress_not_a_number p \<longrightarrow> (\<exists>r. ?v = Num r \<and> 0 \<le> r \<and> r \<le> 100)"
    using clamped_progress_range by blast
  have c: "generateProgressBarHtml num_str ident cls p node =
         (let label = or_else (strs p ''label'') ''none'';
              showValue = truthy_bool (bools p ''showValue'');
              v = ?v
          in
          ''\<newline>'' @
          ''<div'' @ (if ident \<noteq> [] then '' id=\"'' @ ident @ ''\"'' else []) @
          '' class=\"ncua-progress-bar ncua-progress-bar-'' @ label @ ''\">\<newline>'' @
          ''  <div class=\"ncua-progress-bar__content\">\<newline>'' @
          ''    <div class=\"ncua-progress-bar__bar\">\<newline>'' @
          ''      <div class=\"ncua-progress-bar__fill\" style=\"width: '' @ num_str v @
          ''%\" aria-valuenow=\"'' @ num_str v @
          ''\" aria-valuemin=\"0\" aria-valuemax=\"100\"></div>\<newline>'' @
          ''    </div>\<newline>'' @
          ''    '' @
          (if showValue \<and> label = ''right'' then ''<span class=\"ncua-progress-bar__label ncua-progress-bar__label-right\">'' @ num_str v @
          ''%</span>'' else []) @
          ''\<newline>'' @
          ''  </div>\<newline>'' @
          ''  '' @
          (if showValue \<and> label = ''bottom'' then ''<span class=\"ncua-progress-bar__label ncua-progress-bar__label-bottom\">'' @ num_str v @
          ''%</span>'' else []) @
          ''\<newline>'' @
          ''</div>'')"
    by (simp add: generateProgressBarHtml_def Let_def)
  have d: "generateProgressCircleHtml num_str ident cls p node =
         (let size = or_else (strs p ''size'') ''md'';
              strokeWidth = or_num (nums p ''strokeWidth'') (Num 4);
              radius = jsub (Num 50) strokeWidth;
              circumference = jmul (jmul (Num 2) (Num Math_PI)) radius;
              v = ?v;
              strokeDashoffset = jsub circumference (jmul (jdiv v (Num 100)) circumference)
          in
          ''\<newline>'' @
          ''<div'' @ (if ident \<noteq> [] then '' id=\"'' @ ident @ ''\"'' else []) @
          '' class=\"ncua-progress-circle ncua-progress-circle--'' @ size @ ''\">\<newline>'' @
          ''  <svg class=\"ncua-progress-circle__svg\" viewBox=\"0 0 100 100\">\<newline>'' @
          ''    <circle class=\"ncua-progress-circle__bg\" cx=\"50\" cy=\"50\" r=\"'' @
          num_str radius @ ''\" stroke-width=\"'' @ num_str strokeWidth @
          ''\"></circle>\<newline>'' @
          ''    <circle class=\"ncua-progress-circle__progress\" cx=\"50\" cy=\"50\" r=\"'' @
          num_str radius @ ''\" stroke-width=\"'' @ num_str strokeWidth @ ''\" \<newline>'' @
          ''            style=\"stroke-dasharray: '' @ num_str circumference @
          ''; stroke-dashoffset: '' @ num_str strokeDashoffset @ '';\"></circle>\<newline>'' @
          ''  </svg>\<newline>'' @
          ''  <div class=\"ncua-progress-circle__text\">'' @ num_str v @ ''%</div>\<newline>'' @
          ''</div>'')"
    by (simp add: generateProgressCircleHtml_def Let_def)
  from a b c d show ?thesis
    unfolding Let_def by blast
qed

theorem progress_markup_within_0_100_witness:
  "\<not> progress_not_a_number props_150 \<and> \<not> progress_not_a_number props_minus_20 \<and>
   progress_not_a_number props_abc \<and>
   generateProgressBarHtml integer_num_str ''bar'' ''c'' props_150 instance_node =
     ''\<newline>'' @
     ''<div id=\"bar\" class=\"ncua-progress-bar ncua-progress-bar-none\">\<newline>'' @
     ''  <div class=\"ncua-progress-bar__content\">\<newline>'' @
     ''    <div class=\"ncua-progress-bar__bar\">\<newline>'' @
     ''      <div class=\"ncua-progress-bar__fill\" style=\"width: 100%\"'' @
     '' aria-valuenow=\"100\" aria-valuemin=\"0\" aria-valuemax=\"100\"></div>\<newline>'' @
     ''    </div>\<newline>'' @
     ''    \<newline>'' @
     ''  </div>\<newline>'' @
     ''  \<newline>'' @
     ''</div>'' \<and>
   (\<exists>r. 0 \<le> r \<and> r \<le> 100 \<and>
      generateProgressBarHtml integer_num_str ''bar'' ''c'' props_minus_20 instance_node =
        ''\<newline>'' @
        ''<div id=\"bar\" class=\"ncua-progress-bar ncua-progress-bar-none\">\<newline>'' @
        ''  <div class=\"ncua-progress-bar__content\">\<newline>'' @
        ''    <div class=\"ncua-progress-bar__bar\">\<newline>'' @
        ''      <div class=\"ncua-progress-bar__fill\" style=\"width: '' @
        integer_num_str (Num r) @ ''%\" aria-valuenow=\"'' @ integer_num_str (Num r) @
        ''\" aria-valuemin=\"0\" aria-valuemax=\"100\"></div>\<newline>'' @
        ''    </div>\<newline>'' @
        ''    \<newline>'' @
        ''  </div>\<newline>'' @
        ''  \<newline>'' @
        ''</div>'')"
proof -
  have a: "\<not> progress_not_a_number props_150" "\<not> progress_not_a_number props_minus_20"
    by (simp_all add: progress_not_a_number_def props_150_def props_minus_20_def no_props_def)
  have b: "progress_not_a_number props_abc"
    by code_simp
  have c: "generateProgressBarHtml integer_num_str ''bar'' ''c'' props_150 instance_node =
     ''\<newline>'' @
     ''<div id=\"bar\" class=\"ncua-progress-bar ncua-progress-bar-none\">\<newline>'' @
     ''  <div class=\"ncua-progress-bar__content\">\<newline>'' @
     ''    <div class=\"ncua-progress-bar__bar\">\<newline>'' @
     ''      <div class=\"ncua-progress-bar__fill\" style=\"width: 100%\"'' @
     '' aria-valuenow=\"100\" aria-valuemin=\"0\" aria-valuemax=\"100\"></div>\<newline>'' @
     ''    </div>\<newline>'' @
     ''    \<newline>'' @
     ''  </div>\<newline>'' @
     ''  \<newline>'' @
     ''</div>''"
    by code_simp
  have l: "or_else (strs props_minus_20 ''label'') ''none'' = ''none''"
    "truthy_bool (bools props_minus_20 ''showValue'') = False"
    by (simp_all add: props_minus_20_def no_props_def or_else_def)
  from progress_markup_within_0_100
    [of props_minus_20 integer_num_str "''bar''" "''c''" instance_node] a(2)
  obtain r where "0 \<le> r" "r \<le> 100"
    and "generateProgressBarHtml integer_num_str ''bar'' ''c'' props_minus_20 instance_node =
        ''\<newline>'' @
        ''<div id=\"bar\" class=\"ncua-progress-bar ncua-progress-bar-none\">\<newline>'' @
        ''  <div class=\"ncua-progress-bar__content\">\<newline>'' @
        ''    <div class=\"ncua-progress-bar__bar\">\<newline>'' @
        ''      <div class=\"ncua-progress-bar__fill\" style=\"width: '' @
        integer_num_str (Num r) @ ''%\" aria-valuenow=\"'' @ integer_num_str (Num r) @
        ''\" aria-valuemin=\"0\" aria-valuemax=\"100\"></div>\<newline>'' @
        ''    </div>\<newline>'' @
        ''    \<newline>'' @
        ''  </div>\<newline>'' @
        ''  \<newline>'' @
        ''</div>''"
    by (auto simp: l Let_def)
  with a b c show ?thesis by blast
qed

section \<open>Sparse nodes\<close>

lemma sparse_regular_markup:
  assumes "sparse node"
  shows "generateRegularHtml num_str opts node st =
    Inr (''<'' @ getHtmlTag node @ '' '' @
         (if generateId opts node \<noteq> [] then ''id=\"'' @ generateId opts node @ ''\" '' else []) @
         ''class=\"'' @ generateRegularClassName node @ ''\"'' @
         ''></'' @ getHtmlTag node @ ''>'', st)"
proof -
  from assms have c: "children node = None" and t: "node_text node = None"
    and o: "opacity node = None" and b: "borderRadius node = None"
    by (simp_all add: sparse_def)
  have i: "generateInlineStyles num_str node = []"
    using o b by (simp add: generateInlineStyles_def)
  have g: "generateChildren num_str opts node st = Inr ([], st)"
    using c by (simp add: generateChildren.simps)
  have ne: "generateRegularClassName node \<noteq> []"
    by (simp add: generateRegularClassName_def)
  show ?thesis
    by (simp add: generateRegularHtml.simps i g t ne Let_def)
qed

text \<open>
  Claim C9. For every node in which all optional fields (text, layout, opacity, corner
  radius, children) are absent, classification, the property inferencers and rendering
  return a value and raise nothing: the size is \<open>md\<close>, no child text is found, the tab
  items are empty, the dropdown items are the default list, there are no inline styles and
  no child markup, and the generic element has no content.
\<close>

theorem sparse_node_never_raises:
  assumes "sparse node"
  shows "(\<exists>m. mapToNcdsComponent node = Inr m) \<and>
    inferSize node = ''md'' \<and>
    findChildText node ty = Inr None \<and>
    extractTabItems node = Inr [] \<and>
    extractDropdownItems node = Inr default_dropdown_items \<and>
    generateInlineStyles num_str node = [] \<and>
    generateChildren num_str opts node st = Inr ([], st) \<and>
    generateRegularHtml num_str opts node st =
      Inr (''<'' @ getHtmlTag node @ '' '' @
           (if generateId opts node \<noteq> [] then ''id=\"'' @ generateId opts node @ ''\" ''
            else []) @
           ''class=\"'' @ generateRegularClassName node @ ''\"'' @
           ''></'' @ getHtmlTag node @ ''>'', st) \<and>
    (\<exists>html st'. generateNodeHtml num_str opts node st = Inr (html, st'))"
proof -
  from assms have c: "children node = None" and l: "layout node = None"
    and o: "opacity node = None" and b: "borderRadius node = None"
    by (simp_all add: sparse_def)
  have 1: "\<exists>m. mapToNcdsComponent node = Inr m" by (rule mapToNcdsComponent_total)
  have 2: "inferSize node = ''md''" using l by (simp add: inferSize_def)
  have 3: "findChildText node ty = Inr None" using c by (simp add: findChildText_def)
  have 4: "extractTabItems node = Inr []" using c by (simp add: extractTabItems_def)
  have 5: "extractDropdownItems node = Inr default_dropdown_items"
    using c by (simp add: extractDropdownItems_def)
  have 6: "generateInlineStyles num_str node = []"
    using o b by (simp add: generateInlineStyles_def)
  have 7: "generateChildren num_str opts node st = Inr ([], st)"
    using c by (simp add: generateChildren.simps)
  note 8 = sparse_regular_markup [OF assms, of num_str opts st]
  have 9: "\<exists>html st'. generateNodeHtml num_str opts node st = Inr (html, st')"
    using render_total(3) [of num_str opts node st] by auto
  from 1 2 3 4 5 6 7 8 9 show ?thesis by blast
qed

theorem sparse_node_never_raises_witness:
  "sparse table_node \<and>
   mapToNcdsComponent table_node = Inr None \<and>
   generateChildren (\<lambda>x. []) (options default_generator) table_node no_usage =
     Inr ([], no_usage) \<and>
   generateNodeHtml (\<lambda>x. []) (options default_generator) table_node no_usage =
     Inr (''<div id=\"data_table\" class=\"figma-frame\"></div>'', no_usage) \<and>
   sparse instance_node \<and>
   generateNodeHtml (\<lambda>x. []) (options default_generator) instance_node no_usage =
     Inr (button_markup, one_button)"
proof -
  have s: "sparse table_node" by (simp add: sparse_def table_node_def)
  from sparse_node_never_raises [OF s, of "[]" "\<lambda>x. []" "options default_generator" no_usage]
  have c: "generateChildren (\<lambda>x. []) (options default_generator) table_node no_usage =
      Inr ([], no_usage)"
    by blast
  note m = mapToNcdsComponent_table_node
  have e: "generateNodeHtml (\<lambda>x. []) (options default_generator) table_node no_usage =
     Inr (''<div id=\"data_table\" class=\"figma-frame\"></div>'', no_usage)"
    by code_simp
  have s': "sparse instance_node" by (simp add: sparse_def instance_node_def)
  have e': "generateNodeHtml (\<lambda>x. []) (options default_generator) instance_node no_usage =
     Inr (button_markup, one_button)"
    by code_simp
  from s c m e s' e' show ?thesis by blast
qed

section \<open>Runs of the generator\<close>

lemma reset_usage:
  "(u :: usage)\<lparr>usedComponents := [], componentCounter := []\<rparr> =
   \<lparr>usedComponents = [], componentCounter = []\<rparr>"
  by simp

text \<open>
  A run renders the nodes from the empty usage state, whatever the state of the generator
  was, and it returns.
\<close>

lemma generateFromDesign_from_empty:
  "\<exists>h st. generateNodesHtml num_str (options g) (nodes design)
             \<lparr>usedComponents = [], componentCounter = []\<rparr> = Inr (h, st) \<and>
     generateFromDesign num_str g design =
       Inr (\<lparr>html = (if truthy_bool (wrapInContainer (options g))
                      then wrapInContainer_html h else h),
              css = (if truthy_bool (includeCSS (options g))
                     then Some generateNcdsCss else None),
              imports = (if truthy_bool (generateNcdsImports (options g))
                         then Some (usedComponents st) else None),
              componentUsage = componentCounter st\<rparr>,
            g\<lparr>usage := st\<rparr>)"
proof -
  obtain h st where
    run: "generateNodesHtml num_str (options g) (nodes design)
            \<lparr>usedComponents = [], componentCounter = []\<rparr> = Inr (h, st)"
    using render_total(1) [of num_str "options g" "nodes design"
        "\<lparr>usedComponents = [], componentCounter = []\<rparr>"]
    by auto
  then show ?thesis
    by (simp add: generateFromDesign_def Let_def reset_usage generateImports_def)
qed

lemma generateFromDesign_same_options:
  assumes "options g' = options g"
  shows "\<exists>r st. generateFromDesign num_str g design = Inr (r, g\<lparr>usage := st\<rparr>) \<and>
           generateFromDesign num_str g' design = Inr (r, g'\<lparr>usage := st\<rparr>)"
  using generateFromDesign_from_empty [of num_str g design]
    generateFromDesign_from_empty [of num_str g' design] assms
  by auto

lemma generateFromDesign_no_nodes:
  "generateFromDesign num_str g (design\<lparr>nodes := []\<rparr>) =
     Inr (\<lparr>html = (if truthy_bool (wrapInContainer (options g))
                    then wrapInContainer_html [] else []),
            css = (if truthy_bool (includeCSS (options g)) then Some generateNcdsCss else None),
            imports = (if truthy_bool (generateNcdsImports (options g)) then Some [] else None),
            componentUsage = []\<rparr>,
          g\<lparr>usage := \<lparr>usedComponents = [], componentCounter = []\<rparr>\<rparr>)"
  by (simp add: generateFromDesign_def Let_def reset_usage generateImports_def
      generateNodesHtml.simps)

text \<open>
  Claim C5. Generation is idempotent across runs, because the used-components set and the
  counter map are cleared at entry of every call. Every call returns. Its result is the
  result of rendering the design from the empty set and the empty counter map, whatever the
  generator held before, and the generator is left holding the set and the map of this run
  only. So two generators with the same options (the same generator after an earlier run
  among them, and two generators constructed with the same options) give the same markup,
  style text, import list and usage counts for the same design; a second call on the same
  generator gives the result of the first; and a design without nodes gives an empty import
  list and no counts even on a generator that has run before.
\<close>

theorem generateFromDesign_idempotent:
  assumes "options g' = options g"
  shows
    "(\<exists>h st. generateNodesHtml num_str (options g) (nodes design)
               \<lparr>usedComponents = [], componentCounter = []\<rparr> = Inr (h, st) \<and>
        generateFromDesign num_str g design =
          Inr (\<lparr>html = (if truthy_bool (wrapInContainer (options g))
                         then wrapInContainer_html h else h),
                 css = (if truthy_bool (includeCSS (options g))
                        then Some generateNcdsCss else None),
                 imports = (if truthy_bool (generateNcdsImports (options g))
                            then Some (usedComponents st) else None),
                 componentUsage = componentCounter st\<rparr>,
               g\<lparr>usage := st\<rparr>)) \<and>
     (\<exists>r st. generateFromDesign num_str g design = Inr (r, g\<lparr>usage := st\<rparr>) \<and>
        generateFromDesign num_str g' design = Inr (r, g'\<lparr>usage := st\<rparr>)) \<and>
     (\<exists>r g1. generateFromDesign num_str g design = Inr (r, g1) \<and>
        generateFromDesign num_str g1 design = Inr (r, g1)) \<and>
     (\<exists>r g1 g2. generateFromDesign num_str (NcdsHtmlGenerator gv1 os) design = Inr (r, g1) \<and>
        generateFromDesign num_str (NcdsHtmlGenerator gv2 os) design = Inr (r, g2)) \<and>
     generateFromDesign num_str g (design\<lparr>nodes := []\<rparr>) =
       Inr (\<lparr>html = (if truthy_bool (wrapInContainer (options g))
                      then wrapInContainer_html [] else []),
              css = (if truthy_bool (includeCSS (options g))
                     then Some generateNcdsCss else None),
              imports = (if truthy_bool (generateNcdsImports (options g))
                         then Some [] else None),
              componentUsage = []\<rparr>,
            g\<lparr>usage := \<lparr>usedComponents = [], componentCounter = []\<rparr>\<rparr>)"
proof (intro conjI)
  show "\<exists>h st. generateNodesHtml num_str (options g) (nodes design)
               \<lparr>usedComponents = [], componentCounter = []\<rparr> = Inr (h, st) \<and>
        generateFromDesign num_str g design =
          Inr (\<lparr>html = (if truthy_bool (wrapInContainer (options g))
                         then wrapInContainer_html h else h),
                 css = (if truthy_bool (includeCSS (options g))
                        then Some generateNcdsCss else None),
                 imports = (if truthy_bool (generateNcdsImports (options g))
                            then Some (usedComponents st) else None),
                 componentUsage = componentCounter st\<rparr>,
               g\<lparr>usage := st\<rparr>)"
    by (rule generateFromDesign_from_empty)
next
  show "\<exists>r st. generateFromDesign num_str g design = Inr (r, g\<lparr>usage := st\<rparr>) \<and>
        generateFromDesign num_str g' design = Inr (r, g'\<lparr>usage := st\<rparr>)"
    by (rule generateFromDesign_same_options [OF assms])
next
  obtain r st where a: "generateFromDesign num_str g design = Inr (r, g\<lparr>usage := st\<rparr>)"
    using generateFromDesign_same_options [of g g num_str design] by auto
  have "options (g\<lparr>usage := st\<rparr>) = options g" by simp
  from generateFromDesign_same_options [OF this, of num_str design] a
  have "generateFromDesign num_str (g\<lparr>usage := st\<rparr>) design = Inr (r, g\<lparr>usage := st\<rparr>)"
    by auto
  with a show "\<exists>r g1. generateFromDesign num_str g design = Inr (r, g1) \<and>
        generateFromDesign num_str g1 design = Inr (r, g1)"
    by blast
next
  have "options (NcdsHtmlGenerator gv2 os) = options (NcdsHtmlGenerator gv1 os)"
    by (simp add: NcdsHtmlGenerator_def)
  from generateFromDesign_same_options [OF this, of num_str design]
  show "\<exists>r g1 g2. generateFromDesign num_str (NcdsHtmlGenerator gv1 os) design = Inr (r, g1) \<and>
        generateFromDesign num_str (NcdsHtmlGenerator gv2 os) design = Inr (r, g2)"
    by blast
next
  show "generateFromDesign num_str g (design\<lparr>nodes := []\<rparr>) =
       Inr (\<lparr>html = (if truthy_bool (wrapInContainer (options g))
                      then wrapInContainer_html [] else []),
              css = (if truthy_bool (includeCSS (options g))
                     then Some generateNcdsCss else None),
              imports = (if truthy_bool (generateNcdsImports (options g))
                         then Some [] else None),
              componentUsage = []\<rparr>,
            g\<lparr>usage := \<lparr>usedComponents = [], componentCounter = []\<rparr>\<rparr>)"
    by (rule generateFromDesign_no_nodes)
qed

text \<open>
  The witness runs the design of one \<open>INSTANCE\<close> node on a fresh generator, which leaves
  the generator holding one Button, then runs the design of one plain frame on that used
  generator and on a fresh one: both give an empty import list and no counts.
\<close>

theorem generateFromDesign_idempotent_witness:
  "options used_generator = options default_generator \<and>
   usage used_generator = one_button \<and>
   generateFromDesign (\<lambda>x. []) default_generator design_one_instance =
     Inr (one_instance_result, used_generator) \<and>
   generateFromDesign (\<lambda>x. []) used_generator design_one_instance =
     Inr (one_instance_result, used_generator) \<and>
   generateFromDesign (\<lambda>x. []) default_generator design_one_table =
     Inr (one_table_result, default_generator\<lparr>usage := no_usage\<rparr>) \<and>
   generateFromDesign (\<lambda>x. []) used_generator design_one_table =
     Inr (one_table_result, used_generator\<lparr>usage := no_usage\<rparr>) \<and>
   imports one_table_result = Some [] \<and> componentUsage one_table_result = []"
proof -
  have o: "options used_generator = options default_generator"
    by (simp add: used_generator_def)
  have u: "usage used_generator = one_button"
    by (simp add: used_generator_def)
  have e1: "generateFromDesign (\<lambda>x. []) default_generator design_one_instance =
     Inr (one_instance_result, used_generator)"
    by code_simp
  have e2: "generateFromDesign (\<lambda>x. []) default_generator design_one_table =
     Inr (one_table_result, default_generator\<lparr>usage := no_usage\<rparr>)"
    by code_simp
  from generateFromDesign_idempotent [OF o, of "\<lambda>x. []" design_one_instance]
  obtain r st where
    a: "generateFromDesign (\<lambda>x. []) default_generator design_one_instance =
          Inr (r, default_generator\<lparr>usage := st\<rparr>)"
    and b: "generateFromDesign (\<lambda>x. []) used_generator design_one_instance =
          Inr (r, used_generator\<lparr>usage := st\<rparr>)"
    by blast
  from a e1 have "r = one_instance_result" "default_generator\<lparr>usage := st\<rparr> = used_generator"
    by simp_all
  then have "r = one_instance_result" "st = one_button"
    by (simp_all add: used_generator_def) (metis generator.select_convs(3) generator.update_convs(3) generator.surjective)
  with b have e3: "generateFromDesign (\<lambda>x. []) used_generator design_one_instance =
     Inr (one_instance_result, used_generator)"
    by (simp add: used_generator_def)
  from generateFromDesign_idempotent [OF o, of "\<lambda>x. []" design_one_table]
  obtain r' st' where
    c: "generateFromDesign (\<lambda>x. []) default_generator design_one_table =
          Inr (r', default_generator\<lparr>usage := st'\<rparr>)"
    and d: "generateFromDesign (\<lambda>x. []) used_generator design_one_table =
          Inr (r', used_generator\<lparr>usage := st'\<rparr>)"
    by blast
  from c e2 have "r' = one_table_result"
    "default_generator\<lparr>usage := st'\<rparr> = default_generator\<lparr>usage := no_usage\<rparr>"
    by simp_all
  then have "r' = one_table_result" "st' = no_usage"
    by simp_all (metis generator.select_convs(3) generator.update_convs(3) generator.surjective)
  with d have e4: "generateFromDesign (\<lambda>x. []) used_generator design_one_table =
     Inr (one_table_result, used_generator\<lparr>usage := no_usage\<rparr>)"
    by simp
  have "imports one_table_result = Some []" "componentUsage one_table_result = []"
    by (simp_all add: one_table_result_def)
  with o u e1 e2 e3 e4 show ?thesis by blast
qed

end
